theory Spec2Isabelle
  imports Main "HOL-Library.Sublist" "HOL-Library.AList"
begin

section \<open>Time, as the naive local \<open>datetime\<close> of the source\<close>

text \<open>
  The source works with naive local datetimes (\<open>datetime.now()\<close>), which have microsecond
  resolution and plain arithmetic. A datetime is the number of microseconds since a
  fixed local midnight; a timedelta is a number of microseconds.
\<close>

type_synonym datetime = int

definition usec :: int where
  "usec = 1000000"

definition hours1 :: int where
  \<comment> \<open>\<open>timedelta(hours=1)\<close>\<close>
  "hours1 = 3600 * 1000000"

definition days1 :: int where
  \<comment> \<open>\<open>timedelta(days=1)\<close>\<close>
  "days1 = 86400 * 1000000"

definition date_of :: "datetime \<Rightarrow> int" where
  \<comment> \<open>\<open>dt.date()\<close>: the calendar day, as a day number\<close>
  "date_of t = t div days1"



text \<open>
  \<open>int(td.total_seconds())\<close> goes through a float: \<open>total_seconds\<close> is the true
  division of the whole microseconds by \<open>10**6\<close>, which Python rounds correctly to the
  nearest double (ties to even), and \<open>int\<close> then truncates towards zero. The double
  nearest to a quotient \<open>x / 10**6 \<ge> 1\<close> has the 53-bit mantissa
  \<open>round(x * 2**(53 - L) / 10**6)\<close>, where \<open>L\<close> is the bit length of the quotient's
  integer part; a quotient below 1 gives a double below 1.0. From \<open>2**34\<close> seconds on,
  a fraction of \<open>.999999\<close> rounds up to the next whole second.
\<close>

fun bit_length :: "nat \<Rightarrow> nat" where
  \<comment> \<open>\<open>int.bit_length()\<close>\<close>
  "bit_length n = (if n = 0 then 0 else Suc (bit_length (n div 2)))"

declare bit_length.simps [simp del]

definition round_half_even :: "int \<Rightarrow> int \<Rightarrow> int" where
  \<comment> \<open>the integer nearest to \<open>a / b\<close>, ties to the even one, for \<open>b > 0\<close>\<close>
  "round_half_even a b =
     (let q = a div b; r = a mod b
      in if 2 * r < b then q else if b < 2 * r then q + 1 else if even q then q else q + 1)"

definition float_seconds_trunc :: "int \<Rightarrow> int" where
  \<comment> \<open>for \<open>x \<ge> 0\<close> microseconds: the integer part of the double nearest to \<open>x / 10**6\<close>\<close>
  "float_seconds_trunc x =
     (if x < usec then 0
      else let L = bit_length (nat (x div usec))
           in if L \<le> 53 then round_half_even (x * 2 ^ (53 - L)) usec div 2 ^ (53 - L)
              else round_half_even x (usec * 2 ^ (L - 53)) * 2 ^ (L - 53))"

definition int_total_seconds :: "int \<Rightarrow> int" where
  \<comment> \<open>\<open>int(td.total_seconds())\<close> for a timedelta of \<open>d\<close> microseconds\<close>
  "int_total_seconds d =
     (if 0 \<le> d then float_seconds_trunc d else - float_seconds_trunc (- d))"

section \<open>Python's \<open>str\<close> of an integer\<close>

definition digit_char :: "nat \<Rightarrow> char" where
  "digit_char d = ''0123456789'' ! d"

fun str_nat :: "nat \<Rightarrow> string" where
  "str_nat n = (if n < 10 then [digit_char n] else str_nat (n div 10) @ [digit_char (n mod 10)])"

declare str_nat.simps [simp del]

definition str_int :: "int \<Rightarrow> string" where
  "str_int i = (if i < 0 then CHR ''-'' # str_nat (nat (- i)) else str_nat (nat i))"

section \<open>Configuration, errors and the data of the pipeline\<close>

record rate_limit_settings =
  emails_per_hour :: int
  delay_between_emails :: int
  max_emails_per_day :: int

text \<open>
  The exceptions of the source that the send pipeline raises or lets through, each
  with its message. \<open>OSError\<close> is what a failed write of the ledger file raises.
\<close>

datatype error =
    RateLimitError string
  | TemplateError string
  | EmailError string
  | SMTPConnectionError string
  | RecruiterNotFoundError string
  | DataFormatError string
  | OSError string

fun str_error :: "error \<Rightarrow> string" where
  \<comment> \<open>\<open>str(e)\<close>\<close>
  "str_error (RateLimitError m) = m"
| "str_error (TemplateError m) = m"
| "str_error (EmailError m) = m"
| "str_error (SMTPConnectionError m) = m"
| "str_error (RecruiterNotFoundError m) = m"
| "str_error (DataFormatError m) = m"
| "str_error (OSError m) = m"

datatype status = Pending | Sent | Replied | Bounced

record recruiter =
  id :: string
  email :: string
  first_name :: string
  last_name :: string
  title :: "string option"
  company :: string
  job_title :: string
  department :: string
  greeting_style :: string
  custom_fields :: "(string \<times> string) list"
  status :: status
  last_contacted :: "datetime option"

text \<open>
  A sent record is the dictionary \<open>record_sent\<close> builds. Its \<open>timestamp\<close> key holds
  \<open>datetime.now().isoformat()\<close>, which every reader passes through
  \<open>datetime.fromisoformat\<close>; the two are inverse on naive datetimes, so the record
  keeps the instant itself.
\<close>

record sent_record =
  timestamp :: datetime
  recruiter_id :: string
  email :: string
  template :: string
  subject :: string

text \<open>
  The file \<open>sent_log.json\<close> as \<open>_load_sent_log\<close> tells its states apart: the path does
  not exist; opening, reading or \<open>json.load\<close> raises (also \<open>data.get\<close> on a document
  that is not an object); or the document is an object, given by its keys and the
  record lists under them. \<open>json.dump\<close> followed by \<open>json.load\<close> is taken to return
  the dumped value.
\<close>

datatype sent_log_file =
    Absent
  | Unreadable
  | JsonObject "(string \<times> sent_record list) list"

datatype write_outcome =
    Written
  | OpenError string
  | WriteError string

text \<open>
  One pass through \<open>_create_message\<close> and the SMTP session of \<open>send_email\<close>, by the
  \<open>except\<close> clause that catches what it raises; \<open>Delivered\<close> when \<open>send_message\<close>
  returns and the session closes.
\<close>

datatype smtp_outcome =
    Delivered
  | SMTPAuthenticationError
  | SMTPRecipientsRefused
  | SMTPException string
  | OtherException string

record message =
  msg_from :: string
  msg_to :: string
  msg_subject :: string
  msg_body :: string
  msg_attachment :: bool

text \<open>The effects a run leaves outside the two stores, in the order they happen.\<close>

datatype event =
    Progress nat nat recruiter
  | Transmitted message
  | Slept int

text \<open>
  What the configuration and the environment decide. The clock, the writes of the
  ledger file, the saves of the contact store and the SMTP sessions answer in the
  order the program asks. \<open>render\<close> is \<open>TemplateEngine.render\<close>, which reads the
  template files and runs Jinja2: \<open>Inl m\<close> is \<open>TemplateError(m)\<close>, \<open>Inr\<close> the subject
  and the body. \<open>store_write\<close> answers \<open>Some m\<close> when \<open>RecruiterManager.save\<close> raises
  \<open>DataFormatError(m)\<close>.
\<close>

record env =
  rate_limit :: rate_limit_settings
  attach_resume :: bool
  default_template :: string
  gmail_email :: string
  gmail_app_password :: string
  resume_exists :: bool
  clock :: "nat \<Rightarrow> datetime"
  log_write :: "nat \<Rightarrow> write_outcome"
  store_write :: "nat \<Rightarrow> string option"
  smtp :: "nat \<Rightarrow> smtp_outcome"
  render :: "string \<Rightarrow> recruiter \<Rightarrow> (string \<times> string) list option
               \<Rightarrow> string + (string \<times> string)"

text \<open>
  The state of one \<open>Mailer\<close>: its \<open>RateLimiter\<close> (\<open>sent_emails\<close>, \<open>loaded\<close>) with the
  ledger file, its \<open>RecruiterManager\<close> (\<open>recruiters\<close>, the dictionary by id in
  insertion order, already loaded), the effects so far, and how often each part of
  the environment has been asked.
\<close>

record world =
  sent_emails :: "sent_record list"
  loaded :: bool
  sent_log :: sent_log_file
  recruiters :: "(string \<times> recruiter) list"
  trace :: "event list"
  reads :: nat
  log_writes :: nat
  store_writes :: nat
  sessions :: nat

section \<open>The rate limiter (\<open>rate_limiter.py\<close>)\<close>

definition now :: "env \<Rightarrow> world \<Rightarrow> datetime \<times> world" where
  \<comment> \<open>\<open>datetime.now()\<close>\<close>
  "now e w = (clock e (reads w), w\<lparr>reads := Suc (reads w)\<rparr>)"

definition RateLimiter_init :: "world \<Rightarrow> world" where
  \<comment> \<open>\<open>RateLimiter.__init__\<close>: a new limiter over the same \<open>sent_log.json\<close>, with
      \<open>_sent_emails = []\<close> and \<open>_loaded = False\<close>\<close>
  "RateLimiter_init w = w\<lparr>sent_emails := [], loaded := False\<rparr>"

definition load_sent_log :: "world \<Rightarrow> world" where
  "load_sent_log w =
     w\<lparr>sent_emails :=
         (case sent_log w of
            Absent \<Rightarrow> []
          | Unreadable \<Rightarrow> []
          | JsonObject data \<Rightarrow>
              (case map_of data ''sent_emails'' of None \<Rightarrow> [] | Some xs \<Rightarrow> xs)),
       loaded := True\<rparr>"

definition ensure_loaded :: "world \<Rightarrow> world" where
  "ensure_loaded w = (if \<not> loaded w then load_sent_log w else w)"

definition save_sent_log :: "env \<Rightarrow> world \<Rightarrow> (error + unit) \<times> world" where
  \<comment> \<open>\<open>open(path, "w")\<close> truncates the file; a failure after that leaves a file that
      no longer parses\<close>
  "save_sent_log e w =
     (let w' = w\<lparr>log_writes := Suc (log_writes w)\<rparr> in
      case log_write e (log_writes w) of
        Written \<Rightarrow> (Inr (), w'\<lparr>sent_log := JsonObject [(''sent_emails'', sent_emails w)]\<rparr>)
      | OpenError m \<Rightarrow> (Inl (OSError m), w')
      | WriteError m \<Rightarrow> (Inl (OSError m), w'\<lparr>sent_log := Unreadable\<rparr>))"

definition get_emails_in_window :: "env \<Rightarrow> int \<Rightarrow> world \<Rightarrow> sent_record list \<times> world" where
  "get_emails_in_window e window w =
     (let w1 = ensure_loaded w;
          (t, w2) = now e w1;
          cutoff = t - window
      in (filter (\<lambda>r. timestamp r > cutoff) (sent_emails w2), w2))"

definition get_emails_last_hour :: "env \<Rightarrow> world \<Rightarrow> int \<times> world" where
  "get_emails_last_hour e w =
     (let (xs, w') = get_emails_in_window e hours1 w in (int (length xs), w'))"

definition get_emails_today :: "env \<Rightarrow> world \<Rightarrow> int \<times> world" where
  "get_emails_today e w =
     (let w1 = ensure_loaded w;
          (t, w2) = now e w1;
          today = date_of t
      in (int (length (filter (\<lambda>r. date_of (timestamp r) = today) (sent_emails w2))), w2))"

definition can_send :: "env \<Rightarrow> world \<Rightarrow> (bool \<times> string) \<times> world" where
  "can_send e w =
     (let hourly_limit = emails_per_hour (rate_limit e);
          daily_limit = max_emails_per_day (rate_limit e);
          (emails_last_hour, w1) = get_emails_last_hour e w;
          (emails_today, w2) = get_emails_today e w1
      in if emails_today \<ge> daily_limit then
           ((False, ''Daily limit reached ('' @ str_int emails_today @ ''/''
                      @ str_int daily_limit @ '')''), w2)
         else if emails_last_hour \<ge> hourly_limit then
           ((False, ''Hourly limit reached ('' @ str_int emails_last_hour @ ''/''
                      @ str_int hourly_limit @ '')''), w2)
         else ((True, ''OK''), w2))"

definition check_rate_limit :: "env \<Rightarrow> world \<Rightarrow> (error + unit) \<times> world" where
  "check_rate_limit e w =
     (let ((ok, reason), w') = can_send e w
      in if \<not> ok then (Inl (RateLimitError (''Rate limit exceeded: '' @ reason)), w')
         else (Inr (), w'))"

definition record_sent ::
  "env \<Rightarrow> string \<Rightarrow> string \<Rightarrow> string \<Rightarrow> string \<Rightarrow> world \<Rightarrow> (error + unit) \<times> world" where
  "record_sent e rid addr tmpl subj w =
     (let w1 = ensure_loaded w;
          (t, w2) = now e w1;
          record = \<lparr>timestamp = t, recruiter_id = rid, email = addr,
                    template = tmpl, subject = subj\<rparr>;
          w3 = w2\<lparr>sent_emails := sent_emails w2 @ [record]\<rparr>
      in save_sent_log e w3)"

definition wait_for_delay :: "env \<Rightarrow> world \<Rightarrow> world" where
  \<comment> \<open>\<open>time.sleep(delay)\<close> is the event \<open>Slept delay\<close>\<close>
  "wait_for_delay e w =
     (let delay = delay_between_emails (rate_limit e)
      in if delay > 0 then w\<lparr>trace := trace w @ [Slept delay]\<rparr> else w)"



section \<open>The contact store, as far as the pipeline uses it (\<open>recruiter_manager.py\<close>)\<close>

definition get_pending :: "world \<Rightarrow> recruiter list" where
  \<comment> \<open>\<open>get_by_status("pending")\<close> over \<open>_recruiters.values()\<close>\<close>
  "get_pending w = filter (\<lambda>r. status r = Pending) (map snd (recruiters w))"

definition mark_sent :: "env \<Rightarrow> string \<Rightarrow> world \<Rightarrow> (error + recruiter) \<times> world" where
  \<comment> \<open>\<open>update(id, status="sent", last_contacted=datetime.now())\<close>: the attributes are
      set on the stored recruiter before \<open>save\<close> runs\<close>
  "mark_sent e rid w =
     (let (t, w1) = now e w
      in case map_of (recruiters w1) rid of
           None \<Rightarrow>
             (Inl (RecruiterNotFoundError
                    (''Recruiter with ID '' @ [CHR 0x27] @ rid @ [CHR 0x27] @ '' not found'')), w1)
         | Some r \<Rightarrow>
             (let r' = r\<lparr>status := Sent, last_contacted := Some t\<rparr>;
                  w2 = w1\<lparr>recruiters := AList.update rid r' (recruiters w1),
                          store_writes := Suc (store_writes w1)\<rparr>
              in case store_write e (store_writes w1) of
                   Some m \<Rightarrow> (Inl (DataFormatError m), w2)
                 | None \<Rightarrow> (Inr r', w2)))"

section \<open>The preview of the template engine (\<open>template_engine.py\<close>)\<close>

definition nl :: char where
  "nl = CHR 0x0A"

definition isspace :: "char \<Rightarrow> bool" where
  \<comment> \<open>the characters \<open>str.strip()\<close> removes, among the single-byte ones\<close>
  "isspace c = (c \<in> set [CHR '' '', CHR 0x09, CHR 0x0A, CHR 0x0B, CHR 0x0C, CHR 0x0D,
                           CHR 0x1C, CHR 0x1D, CHR 0x1E, CHR 0x1F])"

definition strip :: "string \<Rightarrow> string" where
  "strip s = rev (dropWhile isspace (rev (dropWhile isspace s)))"

definition rule60 :: string where
  \<comment> \<open>\<open>'='*60\<close>\<close>
  "rule60 = replicate 60 (CHR ''='')"

definition render_preview ::
  "env \<Rightarrow> string \<Rightarrow> recruiter \<Rightarrow> (string \<times> string) list option \<Rightarrow> string + string" where
  "render_preview e template_name r custom_vars =
     (case render e template_name r custom_vars of
        Inl m \<Rightarrow> Inl m
      | Inr (subj, body) \<Rightarrow>
          Inr (strip ([nl] @ rule60 @ [nl]
                      @ ''To: '' @ recruiter.email r @ [nl]
                      @ ''Subject: '' @ subj @ [nl]
                      @ rule60 @ [nl] @ [nl]
                      @ body @ [nl] @ [nl]
                      @ rule60 @ [nl])))"

section \<open>The mailer (\<open>mailer.py\<close>)\<close>

definition create_message :: "env \<Rightarrow> string \<Rightarrow> string \<Rightarrow> string \<Rightarrow> bool \<Rightarrow> message" where
  \<comment> \<open>the last argument: an attachment path is given; the file is looked up again\<close>
  "create_message e to_email subj body attachment_path =
     \<lparr>msg_from = gmail_email e, msg_to = to_email, msg_subject = subj, msg_body = body,
      msg_attachment = (attachment_path \<and> resume_exists e)\<rparr>"

definition try_send ::
  "env \<Rightarrow> recruiter \<Rightarrow> string \<Rightarrow> string \<Rightarrow> string \<Rightarrow> bool \<Rightarrow> world
     \<Rightarrow> (error + bool \<times> string) \<times> world" where
  \<comment> \<open>the \<open>try\<close> block of \<open>send_email\<close> with its \<open>except\<close> clauses: what \<open>record_sent\<close>
      and \<open>mark_sent\<close> raise is no \<open>SMTPException\<close> and reaches the last clause\<close>
  "try_send e r template_name subj body attachment_path w1 =
     (let msg = create_message e (recruiter.email r) subj body attachment_path;
          w2 = w1\<lparr>sessions := Suc (sessions w1)\<rparr>
      in case smtp e (sessions w1) of
           SMTPAuthenticationError \<Rightarrow>
             (Inl (SMTPConnectionError ''Authentication failed. Check your credentials.''), w2)
         | SMTPRecipientsRefused \<Rightarrow>
             (Inl (EmailError (''Recipient refused: '' @ recruiter.email r)), w2)
         | SMTPException m \<Rightarrow> (Inl (EmailError (''SMTP error: '' @ m)), w2)
         | OtherException m \<Rightarrow> (Inl (EmailError (''Failed to send email: '' @ m)), w2)
         | Delivered \<Rightarrow>
             (let w3 = w2\<lparr>trace := trace w2 @ [Transmitted msg]\<rparr>
              in case record_sent e (recruiter.id r) (recruiter.email r) template_name subj w3 of
                   (Inl err, w4) \<Rightarrow>
                     (Inl (EmailError (''Failed to send email: '' @ str_error err)), w4)
                 | (Inr _, w4) \<Rightarrow>
                     (case mark_sent e (recruiter.id r) w4 of
                        (Inl err, w5) \<Rightarrow>
                          (Inl (EmailError (''Failed to send email: '' @ str_error err)), w5)
                      | (Inr _, w5) \<Rightarrow>
                          (Inr (True, ''Email sent successfully to '' @ recruiter.email r),
                           w5))))"

definition send_email ::
  "env \<Rightarrow> recruiter \<Rightarrow> string \<Rightarrow> (string \<times> string) list option \<Rightarrow> bool option \<Rightarrow> bool
     \<Rightarrow> world \<Rightarrow> (error + bool \<times> string) \<times> world" where
  "send_email e r template_name custom_vars attach dry_run w =
     (case check_rate_limit e w of
        (Inl err, w1) \<Rightarrow> (Inl err, w1)
      | (Inr _, w1) \<Rightarrow>
     (case render e template_name r custom_vars of
        Inl m \<Rightarrow> (Inl (TemplateError m), w1)
      | Inr (subj, body) \<Rightarrow>
     if dry_run then
       (case render_preview e template_name r custom_vars of
          Inl m \<Rightarrow> (Inl (TemplateError m), w1)
        | Inr preview \<Rightarrow> (Inr (True, ''DRY RUN - Would send:'' @ [nl] @ preview), w1))
     else
       (let attach' = (case attach of None \<Rightarrow> attach_resume e | Some b \<Rightarrow> b);
            attachment_path = (attach' \<and> resume_exists e)
        in if gmail_email e = [] \<or> gmail_app_password e = [] then
             (Inl (EmailError (''Gmail credentials not configured. ''
                     @ ''Set GMAIL_EMAIL and GMAIL_APP_PASSWORD in .env'')), w1)
           else try_send e r template_name subj body attachment_path w1)))"

record results =
  total :: nat
  sent :: nat
  failed :: nat
  skipped :: nat
  errors :: "(string \<times> string) list"

definition bulk_step ::
  "env \<Rightarrow> string \<Rightarrow> (string \<times> string) list option \<Rightarrow> bool \<Rightarrow> bool \<Rightarrow> nat \<Rightarrow> nat
     \<Rightarrow> recruiter \<Rightarrow> results \<times> world \<Rightarrow> results \<times> world" where
  \<comment> \<open>the body of the \<open>for\<close> loop of \<open>send_to_all_pending\<close>, for the recruiter at index
      \<open>i\<close> of \<open>n\<close> pending ones; \<open>progress_callback\<close> tells whether a callback was given,
      and calling it is the event \<open>Progress\<close>\<close>
  "bulk_step e template_name custom_vars dry_run progress_callback n i r st =
     (let (res, w) = st;
          w0 = (if progress_callback then w\<lparr>trace := trace w @ [Progress (i + 1) n r]\<rparr>
                else w);
          ((ok, reason), w1) = can_send e w0
      in if \<not> ok then
           (res\<lparr>skipped := skipped res + 1,
                errors := errors res @ [(recruiter.email r, ''Rate limit: '' @ reason)]\<rparr>, w1)
         else
           (let (out, w2) = send_email e r template_name custom_vars None dry_run w1;
                res' = (case out of
                          Inr (success, msg) \<Rightarrow>
                            if success then res\<lparr>sent := sent res + 1\<rparr>
                            else res\<lparr>failed := failed res + 1,
                                     errors := errors res @ [(recruiter.email r, msg)]\<rparr>
                        | Inl err \<Rightarrow>
                            res\<lparr>failed := failed res + 1,
                                errors := errors res @ [(recruiter.email r, str_error err)]\<rparr>);
                w3 = (if \<not> dry_run \<and> i < n - 1 then wait_for_delay e w2 else w2)
            in (res', w3)))"

fun bulk_loop ::
  "env \<Rightarrow> string \<Rightarrow> (string \<times> string) list option \<Rightarrow> bool \<Rightarrow> bool \<Rightarrow> nat \<Rightarrow> nat
     \<Rightarrow> recruiter list \<Rightarrow> results \<times> world \<Rightarrow> results \<times> world" where
  "bulk_loop e template_name custom_vars dry_run progress_callback n i [] st = st"
| "bulk_loop e template_name custom_vars dry_run progress_callback n i (r # rs) st =
     bulk_loop e template_name custom_vars dry_run progress_callback n (Suc i) rs
       (bulk_step e template_name custom_vars dry_run progress_callback n i r st)"

definition send_to_all_pending ::
  "env \<Rightarrow> string option \<Rightarrow> (string \<times> string) list option \<Rightarrow> bool \<Rightarrow> bool \<Rightarrow> world
     \<Rightarrow> results \<times> world" where
  "send_to_all_pending e template_name custom_vars dry_run progress_callback w =
     (let template_name' = (case template_name of None \<Rightarrow> default_template e | Some t \<Rightarrow> t);
          pending = get_pending w;
          res = \<lparr>total = length pending, sent = 0, failed = 0, skipped = 0, errors = []\<rparr>
      in bulk_loop e template_name' custom_vars dry_run progress_callback (length pending) 0
           pending (res, w))"

section \<open>The specification's vocabulary\<close>

definition ledger :: "world \<Rightarrow> sent_record list" where
  \<comment> \<open>the ledger as every query and \<open>record_sent\<close> see it: loaded on first access\<close>
  "ledger w = sent_emails (ensure_loaded w)"

definition countSince :: "sent_record list \<Rightarrow> datetime \<Rightarrow> nat" where
  \<comment> \<open>the count of records with \<open>timestamp > instant\<close>\<close>
  "countSince xs instant = length (filter (\<lambda>r. timestamp r > instant) xs)"

definition countOnDate :: "sent_record list \<Rightarrow> int \<Rightarrow> nat" where
  \<comment> \<open>the count of records whose timestamp falls on the calendar date\<close>
  "countOnDate xs d = length (filter (\<lambda>r. date_of (timestamp r) = d) xs)"


definition canSend_spec ::
  "rate_limit_settings \<Rightarrow> sent_record list \<Rightarrow> datetime \<Rightarrow> int \<Rightarrow> bool \<times> string" where
  \<comment> \<open>the decision as the specification words it, for the ledger \<open>xs\<close>, the instant
      \<open>t\<close> that ends the trailing hour and the calendar date \<open>today\<close>\<close>
  "canSend_spec cfg xs t today =
     (let n_today = int (countOnDate xs today);
          n_hour = int (countSince xs (t - hours1))
      in if n_today \<ge> max_emails_per_day cfg then
           (False, ''Daily limit reached ('' @ str_int n_today @ ''/''
                     @ str_int (max_emails_per_day cfg) @ '')'')
         else if n_hour \<ge> emails_per_hour cfg then
           (False, ''Hourly limit reached ('' @ str_int n_hour @ ''/''
                     @ str_int (emails_per_hour cfg) @ '')'')
         else (True, ''OK''))"

section \<open>Sample configuration and state\<close>

definition default_limits :: rate_limit_settings where
  \<comment> \<open>the defaults of \<open>RateLimitSettings\<close>\<close>
  "default_limits =
     \<lparr>emails_per_hour = 20, delay_between_emails = 30, max_emails_per_day = 100\<rparr>"

definition noon :: datetime where
  \<comment> \<open>12:00:00 on day 1\<close>
  "noon = 129600000000"

definition mk_recruiter :: "string \<Rightarrow> string \<Rightarrow> recruiter" where
  "mk_recruiter i addr =
     \<lparr>recruiter.id = i, recruiter.email = addr, first_name = ''Ada'', last_name = '''',
      title = None, company = ''TechCorp'', job_title = '''', department = '''',
      greeting_style = ''semi_formal'', custom_fields = [], status = Pending,
      last_contacted = None\<rparr>"

definition sample_env :: env where
  "sample_env =
     \<lparr>rate_limit = default_limits, attach_resume = True, default_template = ''default'',
      gmail_email = ''me@gmail.com'', gmail_app_password = ''app-password'',
      resume_exists = True,
      clock = (\<lambda>k. noon + int k),
      log_write = (\<lambda>k. Written),
      store_write = (\<lambda>k. None),
      smtp = (\<lambda>k. Delivered),
      render = (\<lambda>name r cv.
                  if name = ''default''
                  then Inr (''Application at '' @ company r, ''Hello '' @ first_name r)
                  else Inl ''Template not found'')\<rparr>"

definition sample_world :: world where
  "sample_world =
     \<lparr>sent_emails = [], loaded = False, sent_log = Absent,
      recruiters = [(''1'', mk_recruiter ''1'' ''a@b.com''),
                    (''2'', mk_recruiter ''2'' ''c@d.org''),
                    (''3'', mk_recruiter ''3'' ''e@f.net'')],
      trace = [], reads = 0, log_writes = 0, store_writes = 0, sessions = 0\<rparr>"

definition sent_at :: "datetime \<Rightarrow> sent_record" where
  "sent_at t = \<lparr>timestamp = t, recruiter_id = ''1'', email = ''a@b.com'',
                template = ''default'', subject = ''Hi''\<rparr>"

definition hourly_one :: rate_limit_settings where
  "hourly_one = \<lparr>emails_per_hour = 1, delay_between_emails = 30, max_emails_per_day = 100\<rparr>"



section \<open>Drivers for the ledger properties\<close>

text \<open>A run of \<open>record_sent\<close> calls, one per tuple of arguments, in order.\<close>

fun record_all :: "env \<Rightarrow> (string \<times> string \<times> string \<times> string) list \<Rightarrow> world \<Rightarrow> world" where
  "record_all e [] w = w"
| "record_all e ((rid, addr, tmpl, subj) # rs) w =
     record_all e rs (snd (record_sent e rid addr tmpl subj w))"

text \<open>The record that \<open>record_sent\<close> builds at clock reading \<open>t\<close>.\<close>

definition new_record :: "datetime \<Rightarrow> string \<times> string \<times> string \<times> string \<Rightarrow> sent_record" where
  "new_record t a = (case a of (rid, addr, tmpl, subj) \<Rightarrow>
     \<lparr>timestamp = t, recruiter_id = rid, email = addr, template = tmpl, subject = subj\<rparr>)"

definition zero_daily :: rate_limit_settings where
  "zero_daily = \<lparr>emails_per_hour = 20, delay_between_emails = 30, max_emails_per_day = 0\<rparr>"

definition corrupt_world :: world where
  "corrupt_world = sample_world\<lparr>sent_log := Unreadable\<rparr>"

definition three_sends :: "(string \<times> string \<times> string \<times> string) list" where
  "three_sends = [(''1'', ''a@b.com'', ''default'', ''S1''),
                  (''2'', ''c@d.org'', ''default'', ''S2''),
                  (''3'', ''e@f.net'', ''default'', ''S3'')]"

definition ada :: recruiter where
  "ada = mk_recruiter ''1'' ''a@b.com''"

definition disk_full :: env where
  "disk_full = sample_env\<lparr>log_write := (\<lambda>k. OpenError ''disk full'')\<rparr>"

definition refusing :: env where
  "refusing = sample_env\<lparr>smtp := (\<lambda>k. SMTPRecipientsRefused)\<rparr>"

definition ada_message :: message where
  "ada_message = \<lparr>msg_from = ''me@gmail.com'', msg_to = ''a@b.com'',
                   msg_subject = ''Application at TechCorp'', msg_body = ''Hello Ada'',
                   msg_attachment = True\<rparr>"

section \<open>The bulk loop by prefixes\<close>

text \<open>
  The state of \<open>send_to_all_pending\<close> after its loop has processed the first \<open>k\<close>
  pending recruiters: the same call, with the list it walks cut after \<open>k\<close> entries.
\<close>

definition state_after ::
  "env \<Rightarrow> string option \<Rightarrow> (string \<times> string) list option \<Rightarrow> bool \<Rightarrow> bool \<Rightarrow> world \<Rightarrow> nat
     \<Rightarrow> results \<times> world" where
  "state_after e template_name custom_vars dry_run progress_callback w k =
     (let template_name' = (case template_name of None \<Rightarrow> default_template e | Some t \<Rightarrow> t);
          pending = get_pending w;
          res = \<lparr>total = length pending, sent = 0, failed = 0, skipped = 0, errors = []\<rparr>
      in bulk_loop e template_name' custom_vars dry_run progress_callback (length pending) 0
           (take k pending) (res, w))"




definition limited :: env where
  "limited = sample_env\<lparr>rate_limit := hourly_one\<rparr>"

section \<open>Facts about the rate limiter\<close>


lemma ensure_loaded_idem [simp]: "ensure_loaded (ensure_loaded w) = ensure_loaded w"
  by (simp add: ensure_loaded_def load_sent_log_def)

lemma ensure_loaded_reads [simp]:
  "ensure_loaded (w\<lparr>reads := n\<rparr>) = (ensure_loaded w)\<lparr>reads := n\<rparr>"
  by (simp add: ensure_loaded_def load_sent_log_def)

lemma ensure_loaded_fields [simp]:
  "reads (ensure_loaded w) = reads w"
  "sent_log (ensure_loaded w) = sent_log w"
  "recruiters (ensure_loaded w) = recruiters w"
  "trace (ensure_loaded w) = trace w"
  "log_writes (ensure_loaded w) = log_writes w"
  "store_writes (ensure_loaded w) = store_writes w"
  "sessions (ensure_loaded w) = sessions w"
  "loaded (ensure_loaded w)"
  by (simp_all add: ensure_loaded_def load_sent_log_def)

lemma ledger_simps [simp]:
  "ledger (ensure_loaded w) = ledger w"
  "ledger (w\<lparr>reads := n\<rparr>) = ledger w"
  "sent_emails (ensure_loaded w) = ledger w"
  by (simp_all add: ledger_def)

lemma get_emails_in_window_eq:
  "get_emails_in_window e window w =
     (filter (\<lambda>r. timestamp r > clock e (reads w) - window) (ledger w),
      (ensure_loaded w)\<lparr>reads := Suc (reads w)\<rparr>)"
  by (simp add: get_emails_in_window_def now_def Let_def)

lemma get_emails_last_hour_eq:
  "get_emails_last_hour e w =
     (int (countSince (ledger w) (clock e (reads w) - hours1)),
      (ensure_loaded w)\<lparr>reads := Suc (reads w)\<rparr>)"
  by (simp add: get_emails_last_hour_def get_emails_in_window_eq countSince_def)

lemma get_emails_today_eq:
  "get_emails_today e w =
     (int (countOnDate (ledger w) (date_of (clock e (reads w)))),
      (ensure_loaded w)\<lparr>reads := Suc (reads w)\<rparr>)"
  by (simp add: get_emails_today_def now_def Let_def countOnDate_def)

lemma can_send_eq:
  "can_send e w =
     (canSend_spec (rate_limit e) (ledger w) (clock e (reads w))
        (date_of (clock e (Suc (reads w)))),
      (ensure_loaded w)\<lparr>reads := Suc (Suc (reads w))\<rparr>)"
  by (simp add: can_send_def get_emails_last_hour_eq get_emails_today_eq canSend_spec_def
      Let_def)










lemma str_int_values:
  "str_int 0 = ''0''" "str_int 1 = ''1''" "str_int 5 = ''5''" "str_int 20 = ''20''"
  "str_int 100 = ''100''"
  by (simp_all add: str_int_def str_nat.simps digit_char_def)

lemma count_replicate:
  "countSince (replicate n r) t = (if timestamp r > t then n else 0)"
  "countOnDate (replicate n r) d = (if date_of (timestamp r) = d then n else 0)"
  by (simp_all add: countSince_def countOnDate_def)

section \<open>The decision of \<open>can_send\<close>\<close>

text \<open>
  C1. For every ledger and every pair of limits, \<open>can_send\<close> answers as the
  specification words it: not allowed, with the reason
  \<open>Daily limit reached (n/limit)\<close>, when the count of records on today's calendar date
  is at least the daily limit; otherwise not allowed, with the reason
  \<open>Hourly limit reached (n/limit)\<close>, when the count of records in the trailing hour is
  at least the hourly limit; otherwise allowed with \<open>OK\<close>. The daily check comes
  first. The trailing hour ends at the first reading of the clock, and today is the
  date of the second reading.
\<close>

theorem can_send_refines_spec:
  "fst (can_send e w) =
     canSend_spec (rate_limit e) (ledger w) (clock e (reads w))
       (date_of (clock e (Suc (reads w))))"
proof -
  have hour: "get_emails_last_hour e w =
      (int (countSince (ledger w) (clock e (reads w) - hours1)),
       (ensure_loaded w)\<lparr>reads := Suc (reads w)\<rparr>)"
    by (rule get_emails_last_hour_eq)
  have today: "get_emails_today e ((ensure_loaded w)\<lparr>reads := Suc (reads w)\<rparr>) =
      (int (countOnDate (ledger w) (date_of (clock e (Suc (reads w))))),
       (ensure_loaded w)\<lparr>reads := Suc (Suc (reads w))\<rparr>)"
    by (simp add: get_emails_today_eq)
  show ?thesis
    unfolding can_send_def hour Let_def prod.case today canSend_spec_def
    by simp
qed

text \<open>
  The rate boundary of the specification: with an hourly limit of 20 and exactly 20
  records stamped now, the answer is \<open>(False, "Hourly limit reached (20/20)")\<close>.
\<close>

theorem can_send_rate_boundary:
  "fst (can_send (sample_env\<lparr>clock := (\<lambda>k. noon)\<rparr>)
         (sample_world\<lparr>sent_emails := replicate 20 (sent_at noon), loaded := True\<rparr>))
   = (False, ''Hourly limit reached (20/20)'')"
  by (simp add: can_send_refines_spec canSend_spec_def ledger_def ensure_loaded_def
      sample_env_def sample_world_def default_limits_def count_replicate sent_at_def
      noon_def hours1_def date_of_def days1_def str_int_values)

text \<open>
  The daily priority of the specification: with a daily limit of 5 and an hourly limit
  of 100, five records of today give the daily reason.
\<close>

lemma can_send_daily_priority:
  "fst (can_send
         (sample_env\<lparr>clock := (\<lambda>k. noon),
            rate_limit := \<lparr>emails_per_hour = 100, delay_between_emails = 30,
                            max_emails_per_day = 5\<rparr>\<rparr>)
         (sample_world\<lparr>sent_emails := replicate 5 (sent_at noon), loaded := True\<rparr>))
   = (False, ''Daily limit reached (5/5)'')"
  by (simp add: can_send_eq canSend_spec_def ledger_def ensure_loaded_def
      sample_env_def sample_world_def count_replicate sent_at_def
      noon_def hours1_def date_of_def days1_def str_int_values)



text \<open>
  From \<open>2^34\<close> seconds on the float has no bit left for the last microsecond: a duration
  of 30799486800.999999 seconds reads as 30799486801 whole seconds.
\<close>

lemma bit_length_example: "bit_length 30799486800 = 35"
  by (simp add: bit_length.simps)

lemma int_total_seconds_rounds_up:
  "int_total_seconds 30799486800999999 = 30799486801"
  by (simp add: int_total_seconds_def float_seconds_trunc_def usec_def bit_length_example
      round_half_even_def Let_def)










section \<open>The wait of \<open>get_wait_time\<close>\<close>




lemma save_sent_log_eq:
  "save_sent_log e w =
     (case log_write e (log_writes w) of
        Written \<Rightarrow> (Inr (), w\<lparr>sent_log := JsonObject [(''sent_emails'', sent_emails w)],
                               log_writes := Suc (log_writes w)\<rparr>)
      | OpenError m \<Rightarrow> (Inl (OSError m), w\<lparr>log_writes := Suc (log_writes w)\<rparr>)
      | WriteError m \<Rightarrow> (Inl (OSError m), w\<lparr>sent_log := Unreadable,
                               log_writes := Suc (log_writes w)\<rparr>))"
  by (simp add: save_sent_log_def Let_def split: write_outcome.splits)

lemma record_sent_eq:
  "record_sent e rid addr tmpl subj w =
     save_sent_log e ((ensure_loaded w)\<lparr>reads := Suc (reads w),
        sent_emails := ledger w @ [new_record (clock e (reads w)) (rid, addr, tmpl, subj)]\<rparr>)"
  by (simp add: record_sent_def now_def Let_def new_record_def)

lemma record_sent_written:
  assumes "log_write e (log_writes w) = Written"
  shows "snd (record_sent e rid addr tmpl subj w) =
     (ensure_loaded w)\<lparr>reads := Suc (reads w),
        sent_emails := ledger w @ [new_record (clock e (reads w)) (rid, addr, tmpl, subj)],
        sent_log := JsonObject [(''sent_emails'',
                      ledger w @ [new_record (clock e (reads w)) (rid, addr, tmpl, subj)])],
        log_writes := Suc (log_writes w)\<rparr>"
  using assms by (simp add: record_sent_eq save_sent_log_eq)

lemma load_JsonObject:
  "sent_log w = JsonObject [(''sent_emails'', xs)] \<Longrightarrow> sent_emails (load_sent_log w) = xs"
  by (simp add: load_sent_log_def)

lemma load_after_init:
  "sent_emails (load_sent_log (RateLimiter_init w)) = sent_emails (load_sent_log w)"
  by (simp add: load_sent_log_def RateLimiter_init_def)

lemma ledger_after_init:
  "ledger (RateLimiter_init w) = sent_emails (load_sent_log w)"
  by (simp add: ledger_def ensure_loaded_def load_sent_log_def RateLimiter_init_def)

lemma ledger_loaded: "loaded w \<Longrightarrow> ledger w = sent_emails w"
  by (simp add: ledger_def ensure_loaded_def)

lemma record_all_written:
  assumes "\<forall>k. log_write e k = Written"
  shows "rs \<noteq> [] \<or> \<not> loaded w \<Longrightarrow>
         sent_emails (load_sent_log (record_all e rs w)) = ledger (record_all e rs w)
         \<and> ledger (record_all e rs w)
             = ledger w @ map (\<lambda>(k, a). new_record (clock e (reads w + k)) a) (enumerate 0 rs)"
proof (induction rs arbitrary: w)
  case Nil
  then show ?case by (simp add: ledger_def ensure_loaded_def)
next
  case (Cons a rs)
  obtain rid addr tmpl subj where a: "a = (rid, addr, tmpl, subj)" by (cases a) auto
  define w1 where "w1 = snd (record_sent e rid addr tmpl subj w)"
  have w1: "w1 = (ensure_loaded w)\<lparr>reads := Suc (reads w),
        sent_emails := ledger w @ [new_record (clock e (reads w)) a],
        sent_log := JsonObject [(''sent_emails'', ledger w @ [new_record (clock e (reads w)) a])],
        log_writes := Suc (log_writes w)\<rparr>"
    unfolding w1_def a using assms by (intro record_sent_written) simp
  have l1: "ledger w1 = ledger w @ [new_record (clock e (reads w)) a]"
    by (subst ledger_loaded) (simp_all add: w1)
  have r1: "reads w1 = Suc (reads w)" by (simp add: w1)
  have step: "record_all e (a # rs) w = record_all e rs w1"
    by (simp add: a w1_def)
  show ?case
  proof (cases "rs = []")
    case True
    have "sent_log w1 = JsonObject [(''sent_emails'', ledger w @ [new_record (clock e (reads w)) a])]"
      by (simp add: w1)
    from load_JsonObject [OF this] True show ?thesis
      unfolding step by (simp add: l1)
  next
    case False
    then have "sent_emails (load_sent_log (record_all e rs w1)) = ledger (record_all e rs w1)
         \<and> ledger (record_all e rs w1)
             = ledger w1 @ map (\<lambda>(k, a). new_record (clock e (reads w1 + k)) a) (enumerate 0 rs)"
      by (intro Cons.IH) simp
    moreover have "map (\<lambda>(k, a). new_record (clock e (reads w + k)) a) (enumerate 0 (a # rs))
        = new_record (clock e (reads w)) a
            # map (\<lambda>(k, a). new_record (clock e (reads w1 + k)) a) (enumerate 0 rs)"
      by (simp add: r1 enumerate_Suc_eq split_def comp_def)
    ultimately show ?thesis
      unfolding step by (simp only: l1 append_assoc append_Cons append_Nil simp_thms)
  qed
qed

section \<open>Appending to the ledger\<close>

text \<open>
  C9. \<open>record_sent\<close> adds exactly one record, stamped with the clock reading, to the end
  of the in-memory sequence, and then persists the full sequence. Whatever the write
  does, the in-memory sequence holds the appended record: when the write fails, the
  call raises and the record is still there.
\<close>

theorem record_sent_appends:
  "let (out, w') = record_sent e rid addr tmpl subj w;
       record = \<lparr>timestamp = clock e (reads w), recruiter_id = rid, email = addr,
                 template = tmpl, subject = subj\<rparr>
   in sent_emails w' = ledger w @ [record] \<and> loaded w' \<and>
      (case log_write e (log_writes w) of
         Written \<Rightarrow>
           out = Inr () \<and> sent_log w' = JsonObject [(''sent_emails'', ledger w @ [record])]
       | OpenError m \<Rightarrow> out = Inl (OSError m) \<and> sent_log w' = sent_log w
       | WriteError m \<Rightarrow> out = Inl (OSError m) \<and> sent_log w' = Unreadable)"
  by (simp add: record_sent_eq save_sent_log_eq new_record_def split: write_outcome.splits)

text \<open>
  A failed write at a concrete input: the call raises \<open>OSError\<close>, the file is as it
  was, and the in-memory ledger holds the new record.
\<close>

theorem record_sent_write_fails:
  "(let (out, w') = record_sent (sample_env\<lparr>log_write := (\<lambda>k. OpenError ''disk full'')\<rparr>)
                       ''1'' ''a@b.com'' ''default'' ''Hi'' sample_world
    in out = Inl (OSError ''disk full'') \<and> sent_emails w' = [sent_at noon] \<and> sent_log w' = Absent)"
  using record_sent_appends [of "sample_env\<lparr>log_write := (\<lambda>k. OpenError ''disk full'')\<rparr>"
      "''1''" "''a@b.com''" "''default''" "''Hi''" sample_world]
  by (simp add: split_def Let_def sample_env_def sample_world_def ledger_def ensure_loaded_def
      load_sent_log_def sent_at_def)

section \<open>The round trip of the ledger\<close>

text \<open>
  C8. The reload is made by a new limiter (\<open>RateLimiter.__init__\<close>: empty memory, nothing
  loaded) that reads the file the first limiter wrote, so that the records it holds
  come from the file alone. A save that succeeds, followed by such a load, gives back
  the saved sequence. For every \<open>N\<close> and every run of \<open>N\<close> appends whose writes succeed,
  the new limiter loads from the file the ledger the first limiter holds in memory,
  which is the ledger before the run followed by the \<open>N\<close> new records in the order of
  the appends (the run starts from a limiter that has not loaded yet, or appends at
  least one record). The file holds the JSON value that \<open>json.dump\<close> was given and
  \<open>json.load\<close> returns it: the text of the file is the library's.
\<close>

theorem ledger_round_trip:
  "(log_write e (log_writes w) = Written
      \<longrightarrow> sent_emails (load_sent_log (RateLimiter_init (snd (save_sent_log e w))))
            = sent_emails w)
   \<and> ((\<forall>k. log_write e k = Written) \<and> (rs \<noteq> [] \<or> \<not> loaded w)
      \<longrightarrow> (let w' = record_all e rs w
           in sent_emails (load_sent_log (RateLimiter_init w')) = ledger w'
              \<and> ledger (RateLimiter_init w') = ledger w'
              \<and> ledger w' = ledger w @ map (\<lambda>(k, a). new_record (clock e (reads w + k)) a)
                                          (enumerate 0 rs)))"
proof (intro conjI impI)
  assume "log_write e (log_writes w) = Written"
  then have "sent_log (RateLimiter_init (snd (save_sent_log e w)))
               = JsonObject [(''sent_emails'', sent_emails w)]"
    by (simp add: save_sent_log_eq RateLimiter_init_def)
  then show "sent_emails (load_sent_log (RateLimiter_init (snd (save_sent_log e w))))
               = sent_emails w"
    by (rule load_JsonObject)
next
  assume "(\<forall>k. log_write e k = Written) \<and> (rs \<noteq> [] \<or> \<not> loaded w)"
  then have "sent_emails (load_sent_log (record_all e rs w)) = ledger (record_all e rs w)
         \<and> ledger (record_all e rs w)
             = ledger w @ map (\<lambda>(k, a). new_record (clock e (reads w + k)) a) (enumerate 0 rs)"
    using record_all_written [of e rs w] by blast
  then show "let w' = record_all e rs w
           in sent_emails (load_sent_log (RateLimiter_init w')) = ledger w'
              \<and> ledger (RateLimiter_init w') = ledger w'
              \<and> ledger w' = ledger w @ map (\<lambda>(k, a). new_record (clock e (reads w + k)) a)
                                          (enumerate 0 rs)"
    unfolding Let_def by (simp only: load_after_init ledger_after_init simp_thms)
qed

text \<open>
  Three appends from an empty ledger, then a new limiter over the file: it loads the
  three records in the order of the appends.
\<close>

theorem ledger_round_trip_three:
  "sent_emails (load_sent_log (RateLimiter_init (record_all sample_env three_sends sample_world)))
     = [new_record noon (''1'', ''a@b.com'', ''default'', ''S1''),
        new_record (noon + 1) (''2'', ''c@d.org'', ''default'', ''S2''),
        new_record (noon + 2) (''3'', ''e@f.net'', ''default'', ''S3'')]"
proof -
  have w: "\<forall>k. log_write sample_env k = Written" by (simp add: sample_env_def)
  have l: "ledger sample_world = []"
    by (simp add: ledger_def ensure_loaded_def load_sent_log_def sample_world_def)
  have c: "clock sample_env k = noon + int k" for k by (simp add: sample_env_def)
  have r: "reads sample_world = 0" "\<not> loaded sample_world" by (simp_all add: sample_world_def)
  from ledger_round_trip [of sample_env sample_world three_sends] w r
  show ?thesis by (simp add: Let_def l c three_sends_def)
qed

section \<open>A ledger file that cannot be parsed\<close>

text \<open>
  With a daily limit of 0, an unreadable ledger file does not make \<open>can_send\<close> answer
  \<open>(True, "OK")\<close>: the empty ledger already reaches the limit.
\<close>

theorem can_send_corrupt_zero_limit:
  "sent_log corrupt_world = Unreadable
   \<and> fst (can_send (sample_env\<lparr>rate_limit := zero_daily\<rparr>) corrupt_world)
       = (False, ''Daily limit reached (0/0)'')"
  by (simp add: can_send_eq canSend_spec_def corrupt_world_def sample_world_def sample_env_def
      zero_daily_def ledger_def ensure_loaded_def load_sent_log_def countOnDate_def countSince_def
      str_int_values)

text \<open>
  C10, amended. If the ledger file exists but reading or parsing it raises, or its
  document has no \<open>sent_emails\<close> key, loading yields an empty in-memory ledger and does
  not fail. Both window counts are then 0, and \<open>can_send\<close> answers \<open>(True, "OK")\<close>
  provided the hourly and the daily limit are both at least 1.
\<close>

theorem unparsable_ledger_loads_empty:
  assumes "sent_log w = Unreadable
           \<or> (\<exists>d. sent_log w = JsonObject d \<and> map_of d ''sent_emails'' = None)"
  shows "sent_emails (load_sent_log w) = [] \<and> loaded (load_sent_log w)
         \<and> (\<not> loaded w \<longrightarrow>
              ledger w = [] \<and> countSince (ledger w) t = 0 \<and> countOnDate (ledger w) d = 0
              \<and> (1 \<le> emails_per_hour (rate_limit e) \<and> 1 \<le> max_emails_per_day (rate_limit e)
                   \<longrightarrow> fst (can_send e w) = (True, ''OK'')))"
proof -
  have a: "sent_emails (load_sent_log w) = []"
    using assms by (auto simp: load_sent_log_def)
  have b: "loaded (load_sent_log w)" by (simp add: load_sent_log_def)
  have c: "ledger w = []" if "\<not> loaded w"
    using that a by (simp add: ledger_def ensure_loaded_def)
  show ?thesis
    using a b c by (auto simp: can_send_eq canSend_spec_def countSince_def countOnDate_def)
qed

text \<open>An unreadable file under the default limits.\<close>

theorem unparsable_ledger_example:
  "sent_emails (load_sent_log corrupt_world) = []
   \<and> fst (can_send sample_env corrupt_world) = (True, ''OK'')"
proof -
  have "sent_log corrupt_world = Unreadable" "\<not> loaded corrupt_world"
    by (simp_all add: corrupt_world_def sample_world_def)
  with unparsable_ledger_loads_empty [of corrupt_world 0 0 sample_env]
  show ?thesis by (simp add: sample_env_def default_limits_def)
qed

section \<open>Facts about the mailer\<close>

lemma check_rate_limit_eq:
  "check_rate_limit e w =
     (let d = canSend_spec (rate_limit e) (ledger w) (clock e (reads w))
                (date_of (clock e (Suc (reads w))))
      in (if fst d then Inr () else Inl (RateLimitError (''Rate limit exceeded: '' @ snd d)),
          (ensure_loaded w)\<lparr>reads := Suc (Suc (reads w))\<rparr>))"
  by (simp add: check_rate_limit_def can_send_eq Let_def split_def)

lemma strip_bracketed:
  assumes "\<not> isspace a" "\<not> isspace b" "isspace c" "isspace d"
  shows "strip (c # a # ys @ [b, d]) = a # ys @ [b]"
  using assms by (simp add: strip_def)

lemma isspace_simps [simp]: "isspace nl" "\<not> isspace (CHR ''='')"
  by (simp_all add: isspace_def nl_def)

lemma rule60_front: "rule60 = CHR ''='' # replicate 59 (CHR ''='')"
  by (simp add: rule60_def numeral_eq_Suc)

lemma rule60_back: "rule60 = replicate 59 (CHR ''='') @ [CHR ''='']"
  unfolding rule60_front by (simp add: replicate_append_same)

lemma strip_ruled:
  "strip ([nl] @ rule60 @ P @ rule60 @ [nl]) = rule60 @ P @ rule60"
proof -
  define R where "R = replicate 59 (CHR ''='')"
  have a: "[nl] @ rule60 @ P @ rule60 @ [nl] = nl # CHR ''='' # (R @ P @ R) @ [CHR ''='', nl]"
    unfolding R_def by (subst rule60_front, subst rule60_back) simp
  have b: "rule60 @ P @ rule60 = CHR ''='' # (R @ P @ R) @ [CHR ''='']"
    unfolding R_def by (subst rule60_front, subst rule60_back) simp
  show ?thesis unfolding a b by (rule strip_bracketed) simp_all
qed

lemma render_preview_eq:
  assumes "render e tn r cv = Inr (subj, body)"
  shows "render_preview e tn r cv =
           Inr (rule60 @ [nl] @ ''To: '' @ recruiter.email r @ [nl] @ ''Subject: '' @ subj @ [nl]
                @ rule60 @ [nl, nl] @ body @ [nl, nl] @ rule60)"
proof -
  define P where "P = [nl] @ ''To: '' @ recruiter.email r @ [nl]
      @ ''Subject: '' @ subj @ [nl] @ rule60 @ [nl, nl] @ body @ [nl, nl]"
  have full: "[nl] @ rule60 @ [nl] @ ''To: '' @ recruiter.email r @ [nl]
                      @ ''Subject: '' @ subj @ [nl] @ rule60 @ [nl] @ [nl]
                      @ body @ [nl] @ [nl] @ rule60 @ [nl]
        = [nl] @ rule60 @ P @ rule60 @ [nl]"
    by (simp add: P_def)
  have res: "rule60 @ [nl] @ ''To: '' @ recruiter.email r @ [nl] @ ''Subject: '' @ subj @ [nl]
                @ rule60 @ [nl, nl] @ body @ [nl, nl] @ rule60 = rule60 @ P @ rule60"
    by (simp add: P_def)
  show ?thesis
    unfolding render_preview_def assms sum.case prod.case full res strip_ruled ..
qed

lemma preview_mentions:
  assumes "render e tn r cv = Inr (subj, body)"
  shows "\<exists>preview. render_preview e tn r cv = Inr preview
           \<and> sublist (recruiter.email r) preview \<and> sublist subj preview"
proof -
  let ?p = "rule60 @ [nl] @ ''To: '' @ recruiter.email r @ [nl] @ ''Subject: '' @ subj @ [nl]
                @ rule60 @ [nl, nl] @ body @ [nl, nl] @ rule60"
  have "?p = (rule60 @ [nl] @ ''To: '') @ recruiter.email r
               @ ([nl] @ ''Subject: '' @ subj @ [nl] @ rule60 @ [nl, nl] @ body @ [nl, nl] @ rule60)"
    by simp
  then have a: "sublist (recruiter.email r) ?p" unfolding sublist_def by blast
  have "?p = (rule60 @ [nl] @ ''To: '' @ recruiter.email r @ [nl] @ ''Subject: '') @ subj
               @ ([nl] @ rule60 @ [nl, nl] @ body @ [nl, nl] @ rule60)"
    by simp
  then have b: "sublist subj ?p" unfolding sublist_def by blast
  from a b render_preview_eq [OF assms] show ?thesis by blast
qed


lemma ensure_loaded_commute [simp]:
  "ensure_loaded (w\<lparr>trace := tr\<rparr>) = (ensure_loaded w)\<lparr>trace := tr\<rparr>"
  "ensure_loaded (w\<lparr>sessions := n\<rparr>) = (ensure_loaded w)\<lparr>sessions := n\<rparr>"
  "ensure_loaded (w\<lparr>log_writes := n\<rparr>) = (ensure_loaded w)\<lparr>log_writes := n\<rparr>"
  "ensure_loaded (w\<lparr>store_writes := n\<rparr>) = (ensure_loaded w)\<lparr>store_writes := n\<rparr>"
  "ensure_loaded (w\<lparr>recruiters := rs\<rparr>) = (ensure_loaded w)\<lparr>recruiters := rs\<rparr>"
  by (simp_all add: ensure_loaded_def load_sent_log_def)

lemma ledger_frame [simp]:
  "ledger (w\<lparr>trace := tr\<rparr>) = ledger w"
  "ledger (w\<lparr>sessions := n\<rparr>) = ledger w"
  "ledger (w\<lparr>log_writes := n\<rparr>) = ledger w"
  "ledger (w\<lparr>store_writes := n\<rparr>) = ledger w"
  "ledger (w\<lparr>recruiters := rs\<rparr>) = ledger w"
  unfolding ledger_def by simp_all

lemma ledger_after_load [simp]:
  "ledger ((ensure_loaded w)\<lparr>sent_emails := xs\<rparr>) = xs"
  "ledger ((ensure_loaded w)\<lparr>sent_emails := xs, sent_log := f\<rparr>) = xs"
  by (simp_all add: ledger_loaded)

lemma send_email_gate:
  "send_email e r tn cv attach dry w =
     (let d = canSend_spec (rate_limit e) (ledger w) (clock e (reads w))
                (date_of (clock e (Suc (reads w))));
          g = (ensure_loaded w)\<lparr>reads := Suc (Suc (reads w))\<rparr>
      in if \<not> fst d then (Inl (RateLimitError (''Rate limit exceeded: '' @ snd d)), g)
         else case render e tn r cv of
                Inl m \<Rightarrow> (Inl (TemplateError m), g)
              | Inr (subj, body) \<Rightarrow>
                  if dry then
                    (case render_preview e tn r cv of
                       Inl m \<Rightarrow> (Inl (TemplateError m), g)
                     | Inr preview \<Rightarrow>
                         (Inr (True, ''DRY RUN - Would send:'' @ [nl] @ preview), g))
                  else if gmail_email e = [] \<or> gmail_app_password e = [] then
                    (Inl (EmailError (''Gmail credentials not configured. ''
                           @ ''Set GMAIL_EMAIL and GMAIL_APP_PASSWORD in .env'')), g)
                  else try_send e r tn subj body
                         ((case attach of None \<Rightarrow> attach_resume e | Some b \<Rightarrow> b)
                            \<and> resume_exists e) g)"
  unfolding send_email_def check_rate_limit_eq Let_def by simp

section \<open>The dry run of \<open>send_email\<close>\<close>

text \<open>
  C6. A dry run of \<open>send_email\<close> transmits nothing, writes no ledger record (the file
  and the ledger, hence its count, are as before) and changes no contact; it consults
  neither the SMTP server nor the stores, and it never fails with a transport error
  (\<open>EmailError\<close>, \<open>SMTPConnectionError\<close>). When it passes the rate gate and the template
  renders, it returns success with \<open>DRY RUN - Would send:\<close> and a preview that contains
  the recipient's email and the rendered subject.
\<close>

theorem send_email_dry_run:
  "let (out, w') = send_email e r tn cv attach True w
   in trace w' = trace w \<and> sent_log w' = sent_log w \<and> ledger w' = ledger w
      \<and> length (ledger w') = length (ledger w) \<and> recruiters w' = recruiters w
      \<and> sessions w' = sessions w \<and> log_writes w' = log_writes w
      \<and> store_writes w' = store_writes w
      \<and> (\<forall>m. out \<noteq> Inl (EmailError m)) \<and> (\<forall>m. out \<noteq> Inl (SMTPConnectionError m))
      \<and> (fst (check_rate_limit e w) = Inr () \<and> render e tn r cv = Inr (subj, body)
           \<longrightarrow> (\<exists>preview. out = Inr (True, ''DRY RUN - Would send:'' @ [nl] @ preview)
                   \<and> sublist (recruiter.email r) preview \<and> sublist subj preview))"
proof -
  define d where "d = canSend_spec (rate_limit e) (ledger w) (clock e (reads w))
                (date_of (clock e (Suc (reads w))))"
  define g where "g = (ensure_loaded w)\<lparr>reads := Suc (Suc (reads w))\<rparr>"
  have g: "trace g = trace w" "sent_log g = sent_log w" "ledger g = ledger w"
    "recruiters g = recruiters w" "sessions g = sessions w" "log_writes g = log_writes w"
    "store_writes g = store_writes w"
    by (simp_all add: g_def)
  have w': "snd (send_email e r tn cv attach True w) = g"
    by (simp add: send_email_gate Let_def g_def split: sum.splits)
  have no_transport: "fst (send_email e r tn cv attach True w) \<noteq> Inl (EmailError m)"
    "fst (send_email e r tn cv attach True w) \<noteq> Inl (SMTPConnectionError m)" for m
    by (simp_all add: send_email_gate Let_def split: sum.splits)
  have ok: "\<exists>preview. fst (send_email e r tn cv attach True w)
                 = Inr (True, ''DRY RUN - Would send:'' @ [nl] @ preview)
              \<and> sublist (recruiter.email r) preview \<and> sublist subj preview"
    if gate: "fst (check_rate_limit e w) = Inr ()" and rend: "render e tn r cv = Inr (subj, body)"
  proof -
    from gate have "fst d"
      by (simp add: check_rate_limit_eq Let_def d_def split: if_splits)
    moreover obtain preview where "render_preview e tn r cv = Inr preview"
      "sublist (recruiter.email r) preview" "sublist subj preview"
      using preview_mentions [OF rend] by blast
    ultimately show ?thesis
      using rend by (simp add: send_email_gate Let_def d_def)
  qed
  show ?thesis
    unfolding split_def Let_def w' using g no_transport ok by simp
qed

lemma sample_gate_open: "fst (check_rate_limit sample_env sample_world) = Inr ()"
  by (simp add: check_rate_limit_eq canSend_spec_def Let_def sample_env_def sample_world_def
      default_limits_def ledger_def ensure_loaded_def load_sent_log_def countOnDate_def countSince_def)

lemma sample_render:
  "render sample_env ''default'' ada None = Inr (''Application at TechCorp'', ''Hello Ada'')"
  by (simp add: sample_env_def ada_def mk_recruiter_def)

text \<open>
  The dry-run scenario of the specification: contact \<open>a@b.com\<close>, template \<open>default\<close>.
\<close>

theorem send_email_dry_run_example:
  "fst (check_rate_limit sample_env sample_world) = Inr ()
   \<and> render sample_env ''default'' ada None = Inr (''Application at TechCorp'', ''Hello Ada'')
   \<and> (\<exists>preview. fst (send_email sample_env ada ''default'' None None True sample_world)
                   = Inr (True, ''DRY RUN - Would send:'' @ [nl] @ preview)
                 \<and> sublist ''a@b.com'' preview \<and> sublist ''Application at TechCorp'' preview)
   \<and> ledger (snd (send_email sample_env ada ''default'' None None True sample_world))
       = ledger sample_world
   \<and> trace (snd (send_email sample_env ada ''default'' None None True sample_world)) = []
   \<and> recruiters (snd (send_email sample_env ada ''default'' None None True sample_world))
       = recruiters sample_world"
proof -
  have e: "recruiter.email ada = ''a@b.com''" by (simp add: ada_def mk_recruiter_def)
  have t: "trace sample_world = []" by (simp add: sample_world_def)
  from send_email_dry_run [of sample_env ada "''default''" None None sample_world
      "''Application at TechCorp''" "''Hello Ada''"]
  show ?thesis
    by (simp add: split_def Let_def sample_gate_open sample_render e t)
qed

lemma try_send_failed:
  assumes "smtp e (sessions w1) \<noteq> Delivered"
  shows "snd (try_send e r tn subj body ap w1) = w1\<lparr>sessions := Suc (sessions w1)\<rparr>"
    and "fst (try_send e r tn subj body ap w1) =
           Inl (case smtp e (sessions w1) of
                  SMTPAuthenticationError \<Rightarrow>
                    SMTPConnectionError ''Authentication failed. Check your credentials.''
                | SMTPRecipientsRefused \<Rightarrow> EmailError (''Recipient refused: '' @ recruiter.email r)
                | SMTPException m \<Rightarrow> EmailError (''SMTP error: '' @ m)
                | OtherException m \<Rightarrow> EmailError (''Failed to send email: '' @ m)
                | Delivered \<Rightarrow> EmailError [])"
  using assms by (simp_all add: try_send_def Let_def split: smtp_outcome.splits)

lemma mark_sent_eq:
  "mark_sent e rid w =
     (case map_of (recruiters w) rid of
        None \<Rightarrow>
          (Inl (RecruiterNotFoundError
                 (''Recruiter with ID '' @ [CHR 0x27] @ rid @ [CHR 0x27] @ '' not found'')),
           w\<lparr>reads := Suc (reads w)\<rparr>)
      | Some r \<Rightarrow>
          (case store_write e (store_writes w) of
             Some m \<Rightarrow> Inl (DataFormatError m)
           | None \<Rightarrow> Inr (r\<lparr>status := Sent, last_contacted := Some (clock e (reads w))\<rparr>),
           w\<lparr>reads := Suc (reads w),
              recruiters := AList.update rid
                 (r\<lparr>status := Sent, last_contacted := Some (clock e (reads w))\<rparr>) (recruiters w),
              store_writes := Suc (store_writes w)\<rparr>))"
  by (simp add: mark_sent_def now_def Let_def split: option.splits)

lemma try_send_delivered:
  assumes "smtp e (sessions w1) = Delivered"
    and "w3 = w1\<lparr>sessions := Suc (sessions w1),
                   trace := trace w1 @ [Transmitted (create_message e (recruiter.email r) subj body ap)]\<rparr>"
    and "rs = record_sent e (recruiter.id r) (recruiter.email r) tn subj w3"
    and "ms = mark_sent e (recruiter.id r) (snd rs)"
  shows "try_send e r tn subj body ap w1 =
     (case fst rs of
        Inl err \<Rightarrow> (Inl (EmailError (''Failed to send email: '' @ str_error err)), snd rs)
      | Inr u \<Rightarrow>
          (case fst ms of
             Inl err \<Rightarrow> (Inl (EmailError (''Failed to send email: '' @ str_error err)), snd ms)
           | Inr r' \<Rightarrow>
               (Inr (True, ''Email sent successfully to '' @ recruiter.email r), snd ms)))"
  unfolding assms(2-4) using assms(1)
  by (simp add: try_send_def Let_def split_def split: sum.splits)

lemma record_sent_frame:
  "trace (snd (record_sent e a b c d w)) = trace w"
  "recruiters (snd (record_sent e a b c d w)) = recruiters w"
  "sessions (snd (record_sent e a b c d w)) = sessions w"
  "store_writes (snd (record_sent e a b c d w)) = store_writes w"
  "reads (snd (record_sent e a b c d w)) = Suc (reads w)"
  "loaded (snd (record_sent e a b c d w))"
  "sent_emails (snd (record_sent e a b c d w)) = ledger w @ [new_record (clock e (reads w)) (a, b, c, d)]"
  by (simp_all add: record_sent_eq save_sent_log_eq split: write_outcome.splits)

lemma record_sent_ok:
  assumes "fst (record_sent e a b c d w) = Inr u"
  shows "sent_log (snd (record_sent e a b c d w))
           = JsonObject [(''sent_emails'', ledger w @ [new_record (clock e (reads w)) (a, b, c, d)])]"
  using assms by (simp add: record_sent_eq save_sent_log_eq split: write_outcome.splits)

lemma mark_sent_frame:
  "trace (snd (mark_sent e rid w)) = trace w"
  "sent_log (snd (mark_sent e rid w)) = sent_log w"
  "sent_emails (snd (mark_sent e rid w)) = sent_emails w"
  "loaded (snd (mark_sent e rid w)) = loaded w"
  "sessions (snd (mark_sent e rid w)) = sessions w"
  by (simp_all add: mark_sent_eq split: option.splits)

lemma mark_sent_ok:
  assumes "fst (mark_sent e rid w) = Inr r'"
  shows "\<exists>r0. map_of (recruiters w) rid = Some r0
          \<and> r' = r0\<lparr>status := Sent, last_contacted := Some (clock e (reads w))\<rparr>
          \<and> map_of (recruiters (snd (mark_sent e rid w))) rid = Some r'"
  using assms by (auto simp: mark_sent_eq update_Some_unfold split: option.splits)


lemma try_send_effects:
  fixes e r tn subj body ap w1
  defines "out \<equiv> fst (try_send e r tn subj body ap w1)"
      and "w' \<equiv> snd (try_send e r tn subj body ap w1)"
      and "msg \<equiv> create_message e (recruiter.email r) subj body ap"
      and "rec \<equiv> new_record (clock e (reads w1)) (recruiter.id r, recruiter.email r, tn, subj)"
  shows "trace w' = trace w1 \<or> trace w' = trace w1 @ [Transmitted msg]"
    and "trace w' = trace w1 \<Longrightarrow>
           sent_log w' = sent_log w1 \<and> ledger w' = ledger w1 \<and> recruiters w' = recruiters w1"
    and "ledger w' \<noteq> ledger w1 \<Longrightarrow>
           trace w' = trace w1 @ [Transmitted msg] \<and> ledger w' = ledger w1 @ [rec]"
    and "recruiters w' \<noteq> recruiters w1 \<Longrightarrow>
           trace w' = trace w1 @ [Transmitted msg] \<and> ledger w' = ledger w1 @ [rec]
           \<and> sent_log w' = JsonObject [(''sent_emails'', ledger w')]"
    and "out = Inr x \<Longrightarrow>
           x = (True, ''Email sent successfully to '' @ recruiter.email r)
           \<and> trace w' = trace w1 @ [Transmitted msg] \<and> ledger w' = ledger w1 @ [rec]
           \<and> sent_log w' = JsonObject [(''sent_emails'', ledger w')]
           \<and> (\<exists>r0. map_of (recruiters w1) (recruiter.id r) = Some r0
                 \<and> map_of (recruiters w') (recruiter.id r)
                     = Some (r0\<lparr>status := Sent,
                                last_contacted := Some (clock e (Suc (reads w1)))\<rparr>))"
proof -
  show a: "trace w' = trace w1 \<or> trace w' = trace w1 @ [Transmitted msg]"
  proof (cases "smtp e (sessions w1) = Delivered")
    case False
    then show ?thesis unfolding w'_def by (simp add: try_send_failed)
  next
    case True
    then show ?thesis unfolding w'_def msg_def
      by (simp add: try_send_delivered [OF _ refl refl refl] record_sent_frame mark_sent_frame
          split: sum.splits)
  qed
  have failed: "w' = w1\<lparr>sessions := Suc (sessions w1)\<rparr> \<and> (\<forall>x. out \<noteq> Inr x)"
    if "smtp e (sessions w1) \<noteq> Delivered"
    using that unfolding w'_def out_def by (simp add: try_send_failed)
  define w3 where "w3 = w1\<lparr>sessions := Suc (sessions w1), trace := trace w1 @ [Transmitted msg]\<rparr>"
  define rs where "rs = record_sent e (recruiter.id r) (recruiter.email r) tn subj w3"
  define ms where "ms = mark_sent e (recruiter.id r) (snd rs)"
  have w3: "ledger w3 = ledger w1" "reads w3 = reads w1" "trace w3 = trace w1 @ [Transmitted msg]"
    "recruiters w3 = recruiters w1"
    by (simp_all add: w3_def)
  have rs: "trace (snd rs) = trace w1 @ [Transmitted msg]" "recruiters (snd rs) = recruiters w1"
    "ledger (snd rs) = ledger w1 @ [rec]" "reads (snd rs) = Suc (reads w1)" "loaded (snd rs)"
    "sent_emails (snd rs) = ledger w1 @ [rec]"
    unfolding rs_def rec_def by (simp_all add: record_sent_frame w3 ledger_loaded)
  have ms: "trace (snd ms) = trace w1 @ [Transmitted msg]" "ledger (snd ms) = ledger w1 @ [rec]"
    "sent_log (snd ms) = sent_log (snd rs)"
    unfolding ms_def by (simp_all add: mark_sent_frame rs ledger_loaded)
  have delivered: "(out, w') =
      (case fst rs of
         Inl err \<Rightarrow> (Inl (EmailError (''Failed to send email: '' @ str_error err)), snd rs)
       | Inr u \<Rightarrow>
           (case fst ms of
              Inl err \<Rightarrow> (Inl (EmailError (''Failed to send email: '' @ str_error err)), snd ms)
            | Inr r' \<Rightarrow> (Inr (True, ''Email sent successfully to '' @ recruiter.email r), snd ms)))"
    if "smtp e (sessions w1) = Delivered"
    unfolding out_def w'_def
    by (simp add: try_send_delivered [OF that w3_def [unfolded msg_def] rs_def ms_def])
  have persisted: "sent_log (snd rs) = JsonObject [(''sent_emails'', ledger w1 @ [rec])]"
    if "fst rs = Inr u" for u
    using record_sent_ok [of e "recruiter.id r" "recruiter.email r" tn subj w3 u] that
    unfolding rs_def rec_def by (simp add: w3)
  show "sent_log w' = sent_log w1 \<and> ledger w' = ledger w1 \<and> recruiters w' = recruiters w1"
    if "trace w' = trace w1"
  proof (cases "smtp e (sessions w1) = Delivered")
    case False
    with failed show ?thesis by simp
  next
    case True
    from delivered [OF True] have "trace w' = trace w1 @ [Transmitted msg]"
      by (auto simp: rs ms split: sum.splits)
    with that show ?thesis by simp
  qed
  show c: "trace w' = trace w1 @ [Transmitted msg] \<and> ledger w' = ledger w1 @ [rec]"
    if "ledger w' \<noteq> ledger w1"
  proof (cases "smtp e (sessions w1) = Delivered")
    case False
    with failed that show ?thesis by simp
  next
    case True
    from delivered [OF True] show ?thesis
      by (auto simp: rs ms split: sum.splits)
  qed
  show "trace w' = trace w1 @ [Transmitted msg] \<and> ledger w' = ledger w1 @ [rec]
           \<and> sent_log w' = JsonObject [(''sent_emails'', ledger w')]"
    if "recruiters w' \<noteq> recruiters w1"
  proof (cases "smtp e (sessions w1) = Delivered")
    case False
    with failed that show ?thesis by simp
  next
    case True
    from delivered [OF True] that persisted show ?thesis
      by (auto simp: rs ms split: sum.splits)
  qed
  show "x = (True, ''Email sent successfully to '' @ recruiter.email r)
           \<and> trace w' = trace w1 @ [Transmitted msg] \<and> ledger w' = ledger w1 @ [rec]
           \<and> sent_log w' = JsonObject [(''sent_emails'', ledger w')]
           \<and> (\<exists>r0. map_of (recruiters w1) (recruiter.id r) = Some r0
                 \<and> map_of (recruiters w') (recruiter.id r)
                     = Some (r0\<lparr>status := Sent,
                                last_contacted := Some (clock e (Suc (reads w1)))\<rparr>))"
    if "out = Inr x"
  proof (cases "smtp e (sessions w1) = Delivered")
    case False
    with failed that show ?thesis by simp
  next
    case True
    from delivered [OF True] that obtain u r' where
      u: "fst rs = Inr u" and r': "fst ms = Inr r'" and w': "w' = snd ms"
      and x: "x = (True, ''Email sent successfully to '' @ recruiter.email r)"
      by (auto split: sum.splits)
    from mark_sent_ok [OF r' [unfolded ms_def]]
    have "\<exists>r0. map_of (recruiters w1) (recruiter.id r) = Some r0
                 \<and> map_of (recruiters w') (recruiter.id r)
                     = Some (r0\<lparr>status := Sent,
                                last_contacted := Some (clock e (Suc (reads w1)))\<rparr>)"
      unfolding w' ms_def by (auto simp: rs)
    with x persisted [OF u] show ?thesis by (simp add: w' ms)
  qed
qed


section \<open>The effects of \<open>send_email\<close>\<close>

text \<open>
  C2, amended. In a call of \<open>send_email\<close> that is no dry run, at most one message is
  transmitted. Without a transmission the ledger file, the ledger and the contacts
  are exactly as before. A record is appended to the ledger only after the
  transmission, and a contact changes only after the transmission and an append that
  was persisted. A call that returns has done all three: transmitted, appended and
  persisted the record, and set the contact's status to sent with its
  \<open>last_contacted\<close>. When the transmission fails, the call fails with the error its
  kind maps to (authentication, recipient refused, SMTP error, any other failure), no
  ledger record is written and the contacts are left as they were.
\<close>

theorem send_email_effects:
  "let (out, w') = send_email e r tn cv attach False w
   in (trace w' = trace w \<or> (\<exists>msg. trace w' = trace w @ [Transmitted msg]))
    \<and> (trace w' = trace w
         \<longrightarrow> sent_log w' = sent_log w \<and> ledger w' = ledger w \<and> recruiters w' = recruiters w)
    \<and> (ledger w' \<noteq> ledger w
         \<longrightarrow> (\<exists>msg rec. trace w' = trace w @ [Transmitted msg] \<and> ledger w' = ledger w @ [rec]))
    \<and> (recruiters w' \<noteq> recruiters w
         \<longrightarrow> (\<exists>msg rec. trace w' = trace w @ [Transmitted msg] \<and> ledger w' = ledger w @ [rec]
                 \<and> sent_log w' = JsonObject [(''sent_emails'', ledger w')]))
    \<and> (\<forall>x. out = Inr x
         \<longrightarrow> (\<exists>msg rec r0 t.
                 x = (True, ''Email sent successfully to '' @ recruiter.email r)
                 \<and> trace w' = trace w @ [Transmitted msg] \<and> ledger w' = ledger w @ [rec]
                 \<and> sent_log w' = JsonObject [(''sent_emails'', ledger w')]
                 \<and> map_of (recruiters w) (recruiter.id r) = Some r0
                 \<and> map_of (recruiters w') (recruiter.id r)
                     = Some (r0\<lparr>status := Sent, last_contacted := Some t\<rparr>)))
    \<and> (fst (check_rate_limit e w) = Inr () \<and> render e tn r cv = Inr (subj, body)
        \<and> gmail_email e \<noteq> [] \<and> gmail_app_password e \<noteq> []
        \<and> smtp e (sessions w) \<noteq> Delivered
         \<longrightarrow> (smtp e (sessions w) = SMTPAuthenticationError
                \<longrightarrow> out = Inl (SMTPConnectionError
                                ''Authentication failed. Check your credentials.''))
           \<and> (smtp e (sessions w) = SMTPRecipientsRefused
                \<longrightarrow> out = Inl (EmailError (''Recipient refused: '' @ recruiter.email r)))
           \<and> (\<forall>m. smtp e (sessions w) = SMTPException m
                \<longrightarrow> out = Inl (EmailError (''SMTP error: '' @ m)))
           \<and> (\<forall>m. smtp e (sessions w) = OtherException m
                \<longrightarrow> out = Inl (EmailError (''Failed to send email: '' @ m)))
           \<and> trace w' = trace w \<and> sent_log w' = sent_log w \<and> ledger w' = ledger w
           \<and> recruiters w' = recruiters w)"
proof -
  define d where "d = canSend_spec (rate_limit e) (ledger w) (clock e (reads w))
                (date_of (clock e (Suc (reads w))))"
  define g where "g = (ensure_loaded w)\<lparr>reads := Suc (Suc (reads w))\<rparr>"
  define out where "out = fst (send_email e r tn cv attach False w)"
  define w' where "w' = snd (send_email e r tn cv attach False w)"
  define ap where "ap = ((case attach of None \<Rightarrow> attach_resume e | Some b \<Rightarrow> b) \<and> resume_exists e)"
  have g: "trace g = trace w" "sent_log g = sent_log w" "ledger g = ledger w"
    "recruiters g = recruiters w" "sessions g = sessions w"
    by (simp_all add: g_def)
  have gate: "fst d" if "fst (check_rate_limit e w) = Inr ()"
    using that by (simp add: check_rate_limit_eq Let_def d_def split: if_splits)
  have se: "send_email e r tn cv attach False w =
      (if \<not> fst d then (Inl (RateLimitError (''Rate limit exceeded: '' @ snd d)), g)
       else case render e tn r cv of
              Inl m \<Rightarrow> (Inl (TemplateError m), g)
            | Inr (s, b) \<Rightarrow>
                if gmail_email e = [] \<or> gmail_app_password e = [] then
                  (Inl (EmailError (''Gmail credentials not configured. ''
                         @ ''Set GMAIL_EMAIL and GMAIL_APP_PASSWORD in .env'')), g)
                else try_send e r tn s b ap g)"
    by (simp add: send_email_gate Let_def d_def g_def ap_def split: sum.splits prod.splits)
  let ?G = "(trace w' = trace w \<or> (\<exists>msg. trace w' = trace w @ [Transmitted msg]))
    \<and> (trace w' = trace w
         \<longrightarrow> sent_log w' = sent_log w \<and> ledger w' = ledger w \<and> recruiters w' = recruiters w)
    \<and> (ledger w' \<noteq> ledger w
         \<longrightarrow> (\<exists>msg rec. trace w' = trace w @ [Transmitted msg] \<and> ledger w' = ledger w @ [rec]))
    \<and> (recruiters w' \<noteq> recruiters w
         \<longrightarrow> (\<exists>msg rec. trace w' = trace w @ [Transmitted msg] \<and> ledger w' = ledger w @ [rec]
                 \<and> sent_log w' = JsonObject [(''sent_emails'', ledger w')]))
    \<and> (\<forall>x. out = Inr x
         \<longrightarrow> (\<exists>msg rec r0 t.
                 x = (True, ''Email sent successfully to '' @ recruiter.email r)
                 \<and> trace w' = trace w @ [Transmitted msg] \<and> ledger w' = ledger w @ [rec]
                 \<and> sent_log w' = JsonObject [(''sent_emails'', ledger w')]
                 \<and> map_of (recruiters w) (recruiter.id r) = Some r0
                 \<and> map_of (recruiters w') (recruiter.id r)
                     = Some (r0\<lparr>status := Sent, last_contacted := Some t\<rparr>)))
    \<and> (fst (check_rate_limit e w) = Inr () \<and> render e tn r cv = Inr (subj, body)
        \<and> gmail_email e \<noteq> [] \<and> gmail_app_password e \<noteq> []
        \<and> smtp e (sessions w) \<noteq> Delivered
         \<longrightarrow> (smtp e (sessions w) = SMTPAuthenticationError
                \<longrightarrow> out = Inl (SMTPConnectionError
                                ''Authentication failed. Check your credentials.''))
           \<and> (smtp e (sessions w) = SMTPRecipientsRefused
                \<longrightarrow> out = Inl (EmailError (''Recipient refused: '' @ recruiter.email r)))
           \<and> (\<forall>m. smtp e (sessions w) = SMTPException m
                \<longrightarrow> out = Inl (EmailError (''SMTP error: '' @ m)))
           \<and> (\<forall>m. smtp e (sessions w) = OtherException m
                \<longrightarrow> out = Inl (EmailError (''Failed to send email: '' @ m)))
           \<and> trace w' = trace w \<and> sent_log w' = sent_log w \<and> ledger w' = ledger w
           \<and> recruiters w' = recruiters w)"
  have stopped: ?G
    if "w' = g" "\<forall>x. out \<noteq> Inr x"
      "\<not> (fst d \<and> (\<exists>sb. render e tn r cv = Inr sb) \<and> gmail_email e \<noteq> []
           \<and> gmail_app_password e \<noteq> [])"
    using that g gate by auto
  have tried: ?G
    if tried: "render e tn r cv = Inr (s, b)" "fst d" "gmail_email e \<noteq> []"
      "gmail_app_password e \<noteq> []"
      "out = fst (try_send e r tn s b ap g)" "w' = snd (try_send e r tn s b ap g)"
    for s b
  proof -
    note eff = try_send_effects [of e r tn s b ap g, folded tried(5,6), unfolded g]
    have fail: "out = Inl (case smtp e (sessions w) of
                  SMTPAuthenticationError \<Rightarrow>
                    SMTPConnectionError ''Authentication failed. Check your credentials.''
                | SMTPRecipientsRefused \<Rightarrow> EmailError (''Recipient refused: '' @ recruiter.email r)
                | SMTPException m \<Rightarrow> EmailError (''SMTP error: '' @ m)
                | OtherException m \<Rightarrow> EmailError (''Failed to send email: '' @ m)
                | Delivered \<Rightarrow> EmailError []) \<and> trace w' = trace w"
      if "smtp e (sessions w) \<noteq> Delivered"
      using that try_send_failed [of e g r tn s b ap] unfolding tried(5,6) by (simp add: g)
    have c1: "trace w' = trace w \<or> (\<exists>msg. trace w' = trace w @ [Transmitted msg])"
      using eff(1) by blast
    have c2: "sent_log w' = sent_log w \<and> ledger w' = ledger w \<and> recruiters w' = recruiters w"
      if "trace w' = trace w" using eff(2) that by blast
    have c3: "\<exists>msg rec. trace w' = trace w @ [Transmitted msg] \<and> ledger w' = ledger w @ [rec]"
      if "ledger w' \<noteq> ledger w" using eff(3) that by blast
    have c4: "\<exists>msg rec. trace w' = trace w @ [Transmitted msg] \<and> ledger w' = ledger w @ [rec]
                 \<and> sent_log w' = JsonObject [(''sent_emails'', ledger w')]"
      if "recruiters w' \<noteq> recruiters w" using eff(4) that by blast
    have c5: "\<exists>msg rec r0 t.
                 x = (True, ''Email sent successfully to '' @ recruiter.email r)
                 \<and> trace w' = trace w @ [Transmitted msg] \<and> ledger w' = ledger w @ [rec]
                 \<and> sent_log w' = JsonObject [(''sent_emails'', ledger w')]
                 \<and> map_of (recruiters w) (recruiter.id r) = Some r0
                 \<and> map_of (recruiters w') (recruiter.id r)
                     = Some (r0\<lparr>status := Sent, last_contacted := Some t\<rparr>)"
      if "out = Inr x" for x using eff(5) [OF that] by blast
    have c6: "(smtp e (sessions w) = SMTPAuthenticationError
                \<longrightarrow> out = Inl (SMTPConnectionError
                                ''Authentication failed. Check your credentials.''))
           \<and> (smtp e (sessions w) = SMTPRecipientsRefused
                \<longrightarrow> out = Inl (EmailError (''Recipient refused: '' @ recruiter.email r)))
           \<and> (\<forall>m. smtp e (sessions w) = SMTPException m
                \<longrightarrow> out = Inl (EmailError (''SMTP error: '' @ m)))
           \<and> (\<forall>m. smtp e (sessions w) = OtherException m
                \<longrightarrow> out = Inl (EmailError (''Failed to send email: '' @ m)))
           \<and> trace w' = trace w \<and> sent_log w' = sent_log w \<and> ledger w' = ledger w
           \<and> recruiters w' = recruiters w"
      if "smtp e (sessions w) \<noteq> Delivered"
      using fail [OF that] c2 by auto
    from c1 c2 c3 c4 c5 c6 show ?thesis by blast
  qed
  have ?G
  proof (cases "fst d")
    case False
    then show ?thesis by (intro stopped) (simp_all add: out_def w'_def se)
  next
    case True
    show ?thesis
    proof (cases "render e tn r cv")
      case (Inl m)
      with True show ?thesis by (intro stopped) (simp_all add: out_def w'_def se)
    next
      case (Inr sb)
      obtain s b where sb: "sb = (s, b)" by (cases sb)
      show ?thesis
      proof (cases "gmail_email e = [] \<or> gmail_app_password e = []")
        case creds: True
        with True Inr sb show ?thesis
          by (intro stopped) (simp_all add: out_def w'_def se)
      next
        case False
        with True Inr sb show ?thesis
          by (intro tried [of s b]) (simp_all add: out_def w'_def se)
      qed
    qed
  qed
  then show ?thesis
    unfolding split_def Let_def out_def w'_def .
qed

lemma sample_world_fields:
  "ledger sample_world = []" "reads sample_world = 0" "trace sample_world = []"
  "sessions sample_world = 0" "log_writes sample_world = 0" "store_writes sample_world = 0"
  "sent_log sample_world = Absent"
  by (simp_all add: ledger_def ensure_loaded_def load_sent_log_def sample_world_def)

lemma sample_decision:
  "canSend_spec default_limits [] t d = (True, ''OK'')"
  by (simp add: canSend_spec_def default_limits_def countOnDate_def countSince_def)

text \<open>
  The three effects do not always come together: when the write of the ledger file
  fails after the message went out, the call fails, the message has been transmitted,
  the file holds no record of it, and the contact is still pending.
\<close>

theorem send_email_ledger_write_fails:
  "fst (send_email disk_full ada ''default'' None None False sample_world)
     = Inl (EmailError ''Failed to send email: disk full'')
   \<and> trace (snd (send_email disk_full ada ''default'' None None False sample_world))
       = [Transmitted ada_message]
   \<and> sent_log (snd (send_email disk_full ada ''default'' None None False sample_world)) = Absent
   \<and> sent_emails (snd (send_email disk_full ada ''default'' None None False sample_world))
       = [new_record (noon + 2) (''1'', ''a@b.com'', ''default'', ''Application at TechCorp'')]
   \<and> recruiters (snd (send_email disk_full ada ''default'' None None False sample_world))
       = recruiters sample_world
   \<and> map_of (recruiters sample_world) ''1'' = Some ada
   \<and> status ada = Pending"
proof -
  define g where "g = (ensure_loaded sample_world)\<lparr>reads := Suc (Suc 0)\<rparr>"
  have se: "send_email disk_full ada ''default'' None None False sample_world
      = try_send disk_full ada ''default'' ''Application at TechCorp'' ''Hello Ada'' True g"
    by (simp add: send_email_gate Let_def sample_world_fields disk_full_def sample_env_def
        sample_decision ada_def mk_recruiter_def g_def)
  have g: "sessions g = 0" "trace g = []" "ledger g = []" "reads g = 2" "log_writes g = 0"
    "sent_log g = Absent" "recruiters g = recruiters sample_world"
    by (simp_all add: g_def sample_world_fields)
  have ts: "try_send disk_full ada ''default'' ''Application at TechCorp'' ''Hello Ada'' True g
      = (Inl (EmailError ''Failed to send email: disk full''),
         snd (record_sent disk_full ''1'' ''a@b.com'' ''default'' ''Application at TechCorp''
                (g\<lparr>sessions := Suc 0, trace := [Transmitted ada_message]\<rparr>)))"
    by (subst try_send_delivered [OF _ refl refl refl])
       (simp_all add: g disk_full_def sample_env_def ada_def mk_recruiter_def create_message_def
          ada_message_def record_sent_eq save_sent_log_eq)
  show ?thesis
    unfolding se ts
    by (simp add: record_sent_eq save_sent_log_eq g disk_full_def sample_env_def
        sample_world_def ada_def mk_recruiter_def)
qed


text \<open>A refused recipient: the call fails and nothing is recorded or changed.\<close>

theorem send_email_recipient_refused:
  "fst (check_rate_limit refusing sample_world) = Inr ()
   \<and> render refusing ''default'' ada None = Inr (''Application at TechCorp'', ''Hello Ada'')
   \<and> smtp refusing (sessions sample_world) = SMTPRecipientsRefused
   \<and> fst (send_email refusing ada ''default'' None None False sample_world)
       = Inl (EmailError ''Recipient refused: a@b.com'')
   \<and> trace (snd (send_email refusing ada ''default'' None None False sample_world)) = []
   \<and> sent_log (snd (send_email refusing ada ''default'' None None False sample_world)) = Absent
   \<and> ledger (snd (send_email refusing ada ''default'' None None False sample_world)) = []
   \<and> recruiters (snd (send_email refusing ada ''default'' None None False sample_world))
       = recruiters sample_world"
proof -
  have gate: "fst (check_rate_limit refusing sample_world) = Inr ()"
    by (simp add: check_rate_limit_eq Let_def refusing_def sample_env_def sample_world_fields
        sample_decision)
  have rend: "render refusing ''default'' ada None = Inr (''Application at TechCorp'', ''Hello Ada'')"
    by (simp add: refusing_def sample_env_def ada_def mk_recruiter_def)
  have creds: "gmail_email refusing \<noteq> []" "gmail_app_password refusing \<noteq> []"
    by (simp_all add: refusing_def sample_env_def)
  have smtp: "smtp refusing (sessions sample_world) = SMTPRecipientsRefused"
    by (simp add: refusing_def sample_env_def)
  have smtp0: "smtp refusing 0 = SMTPRecipientsRefused"
    by (simp add: refusing_def sample_env_def)
  have addr: "recruiter.email ada = ''a@b.com''" by (simp add: ada_def mk_recruiter_def)
  from send_email_effects [of refusing ada "''default''" None None sample_world
      "''Application at TechCorp''" "''Hello Ada''"]
  show ?thesis
    by (simp add: split_def Let_def gate rend creds smtp smtp0 addr sample_world_fields)
qed

section \<open>Facts about the bulk loop\<close>

lemma bulk_loop_snoc:
  "bulk_loop e tn cv dry cb n i (xs @ [x]) st
     = bulk_step e tn cv dry cb n (i + length xs) x (bulk_loop e tn cv dry cb n i xs st)"
  by (induction xs arbitrary: i st) simp_all


lemma state_after_Suc:
  assumes "k < length (get_pending w)"
  shows "state_after e tn cv dry cb w (Suc k) =
           bulk_step e (case tn of None \<Rightarrow> default_template e | Some t \<Rightarrow> t) cv dry cb
             (length (get_pending w)) k (get_pending w ! k) (state_after e tn cv dry cb w k)"
  using assms by (simp add: state_after_def Let_def take_Suc_conv_app_nth bulk_loop_snoc)




lemma send_email_trace:
  "trace (snd (send_email e r tn cv a dry w)) = trace w
   \<or> (\<exists>msg. trace (snd (send_email e r tn cv a dry w)) = trace w @ [Transmitted msg])"
proof -
  define g where "g = (ensure_loaded w)\<lparr>reads := Suc (Suc (reads w))\<rparr>"
  have g: "trace g = trace w" by (simp add: g_def)
  have t: "trace (snd (try_send e r tn s b ap g)) = trace w
        \<or> (\<exists>msg. trace (snd (try_send e r tn s b ap g)) = trace w @ [Transmitted msg])"
    for s b ap
    using try_send_effects(1) [of e r tn s b ap g] unfolding g by blast
  show ?thesis
    unfolding send_email_gate Let_def g_def [symmetric]
    using t by (auto simp: g split: sum.splits)
qed


lemma can_send_frame:
  "trace (snd (can_send e w)) = trace w" "sent_log (snd (can_send e w)) = sent_log w"
  "ledger (snd (can_send e w)) = ledger w" "recruiters (snd (can_send e w)) = recruiters w"
  "sessions (snd (can_send e w)) = sessions w"
  by (simp_all add: can_send_eq)

lemma bulk_step_skip:
  assumes "\<not> fst (fst (can_send e w0))"
    and "w0 = (if cb then w\<lparr>trace := trace w @ [Progress (i + 1) n r]\<rparr> else w)"
  shows "bulk_step e tn cv dry cb n i r (res, w) =
           (res\<lparr>skipped := skipped res + 1,
                errors := errors res @ [(recruiter.email r,
                                         ''Rate limit: '' @ snd (fst (can_send e w0)))]\<rparr>,
            snd (can_send e w0))"
  using assms by (cases cb) (simp_all add: bulk_step_def Let_def split_def)

lemma bulk_step_dispatch:
  assumes "fst (fst (can_send e w0))"
    and "w0 = (if cb then w\<lparr>trace := trace w @ [Progress (i + 1) n r]\<rparr> else w)"
    and "se = send_email e r tn cv None dry (snd (can_send e w0))"
  shows "bulk_step e tn cv dry cb n i r (res, w) =
           ((case fst se of
               Inr (success, msg) \<Rightarrow>
                 if success then res\<lparr>sent := sent res + 1\<rparr>
                 else res\<lparr>failed := failed res + 1,
                          errors := errors res @ [(recruiter.email r, msg)]\<rparr>
             | Inl err \<Rightarrow>
                 res\<lparr>failed := failed res + 1,
                     errors := errors res @ [(recruiter.email r, str_error err)]\<rparr>),
            (if \<not> dry \<and> i < n - 1 then wait_for_delay e (snd se) else snd se))"
  using assms by (cases cb) (simp_all add: bulk_step_def Let_def split_def split: sum.splits)

lemma wait_for_delay_trace:
  "trace (wait_for_delay e w) =
     trace w @ (if delay_between_emails (rate_limit e) > 0
                then [Slept (delay_between_emails (rate_limit e))] else [])"
  by (simp add: wait_for_delay_def Let_def)

section \<open>Skipping on the rate limit\<close>

text \<open>
  C4. The loop of \<open>send_to_all_pending\<close> takes the pending recruiters in enumeration
  order. For the recruiter at index \<open>k\<close> the progress callback, when given, is called
  with \<open>(k + 1, n, recruiter)\<close> before anything else happens for that recruiter. If
  \<open>can_send\<close> then disallows, \<open>skipped\<close> grows by one, the entry
  \<open>{email, "Rate limit: <reason>"}\<close> is appended to \<open>errors\<close>, \<open>sent\<close> and \<open>failed\<close> stay, and
  the loop goes on with neither a dispatch (no transmission, no SMTP session, ledger
  and contacts untouched) nor the delay between messages.
\<close>

theorem bulk_skip_on_rate_limit:
  assumes "k < length (get_pending w)"
  shows "let pending = get_pending w; n = length pending; r = pending ! k;
             (res, wk) = state_after e tn cv dry cb w k;
             w0 = (if cb then wk\<lparr>trace := trace wk @ [Progress (k + 1) n r]\<rparr> else wk);
             ((ok, reason), w1) = can_send e w0;
             (res', w') = state_after e tn cv dry cb w (Suc k)
         in (\<exists>rest. trace w' = trace w0 @ rest)
            \<and> (\<not> ok \<longrightarrow>
                 res' = res\<lparr>skipped := skipped res + 1,
                            errors := errors res @ [(recruiter.email r, ''Rate limit: '' @ reason)]\<rparr>
                 \<and> sent res' = sent res \<and> failed res' = failed res
                 \<and> trace w' = trace w0 \<and> sent_log w' = sent_log wk \<and> ledger w' = ledger wk
                 \<and> recruiters w' = recruiters wk \<and> sessions w' = sessions wk)"
proof -
  define n where "n = length (get_pending w)"
  define r where "r = get_pending w ! k"
  define tn' where "tn' = (case tn of None \<Rightarrow> default_template e | Some t \<Rightarrow> t)"
  define res where "res = fst (state_after e tn cv dry cb w k)"
  define wk where "wk = snd (state_after e tn cv dry cb w k)"
  define w0 where "w0 = (if cb then wk\<lparr>trace := trace wk @ [Progress (k + 1) n r]\<rparr> else wk)"
  define se where "se = send_email e r tn' cv None dry (snd (can_send e w0))"
  have w0: "sent_log w0 = sent_log wk" "ledger w0 = ledger wk" "recruiters w0 = recruiters wk"
    "sessions w0 = sessions wk"
    by (simp_all add: w0_def)
  have step: "state_after e tn cv dry cb w (Suc k) = bulk_step e tn' cv dry cb n k r (res, wk)"
    unfolding n_def r_def tn'_def res_def wk_def using assms by (simp add: state_after_Suc)
  have skip: "state_after e tn cv dry cb w (Suc k)
       = (res\<lparr>skipped := skipped res + 1,
               errors := errors res @ [(recruiter.email r,
                                        ''Rate limit: '' @ snd (fst (can_send e w0)))]\<rparr>,
            snd (can_send e w0))"
    if "\<not> fst (fst (can_send e w0))"
    unfolding step using that w0_def by (rule bulk_step_skip)
  have ext: "\<exists>rest. trace (snd (state_after e tn cv dry cb w (Suc k))) = trace w0 @ rest"
  proof (cases "fst (fst (can_send e w0))")
    case False
    then show ?thesis by (simp add: skip can_send_frame)
  next
    case True
    have "\<exists>a. trace (snd se) = trace w0 @ a"
      using send_email_trace [of e r tn' cv None dry "snd (can_send e w0)"]
      unfolding se_def [symmetric] by (auto simp: can_send_frame)
    then show ?thesis
      unfolding step bulk_step_dispatch [OF True w0_def se_def]
      by (auto simp: wait_for_delay_trace)
  qed
  show ?thesis
    unfolding Let_def split_def n_def [symmetric] r_def [symmetric] res_def [symmetric]
      wk_def [symmetric] w0_def [symmetric]
    using ext skip by (auto simp: can_send_frame w0)
qed


section \<open>The summary of the bulk loop\<close>






section \<open>The delay between messages\<close>


section \<open>The loop at concrete inputs\<close>

lemma ensure_loaded_literal:
  "ensure_loaded \<lparr>sent_emails = xs, loaded = l, sent_log = f, recruiters = rs, trace = tr,
                  reads = a, log_writes = b, store_writes = c, sessions = d\<rparr>
   = \<lparr>sent_emails = (if l then xs else
                       (case f of Absent \<Rightarrow> [] | Unreadable \<Rightarrow> []
                        | JsonObject data \<Rightarrow>
                            (case map_of data ''sent_emails'' of None \<Rightarrow> [] | Some ys \<Rightarrow> ys))),
      loaded = True, sent_log = f, recruiters = rs, trace = tr,
      reads = a, log_writes = b, store_writes = c, sessions = d\<rparr>"
  by (simp add: ensure_loaded_def load_sent_log_def)

lemma ledger_literal:
  "ledger \<lparr>sent_emails = xs, loaded = l, sent_log = f, recruiters = rs, trace = tr,
           reads = a, log_writes = b, store_writes = c, sessions = d\<rparr>
   = (if l then xs else
        (case f of Absent \<Rightarrow> [] | Unreadable \<Rightarrow> []
         | JsonObject data \<Rightarrow>
             (case map_of data ''sent_emails'' of None \<Rightarrow> [] | Some ys \<Rightarrow> ys)))"
  unfolding ledger_def ensure_loaded_literal by simp

lemmas run_defs =
  send_to_all_pending_def get_pending_def bulk_step_def can_send_eq canSend_spec_def
  send_email_gate try_send_def record_sent_eq save_sent_log_eq mark_sent_eq wait_for_delay_def
  create_message_def new_record_def countOnDate_def countSince_def
  ensure_loaded_literal ledger_literal Let_def
  sample_world_def sample_env_def default_limits_def mk_recruiter_def noon_def
  hours1_def days1_def date_of_def str_int_values

lemma sample_pending: "length (get_pending sample_world) = 3"
  by (simp add: get_pending_def sample_world_def mk_recruiter_def)


lemma limited_summary: "fst (send_to_all_pending limited None None False True sample_world)
     = \<lparr>total = 3, sent = 1, failed = 0, skipped = 2,
        errors = [(''c@d.org'', ''Rate limit: Hourly limit reached (1/1)''),
                  (''e@f.net'', ''Rate limit: Hourly limit reached (1/1)'')]\<rparr>"
    by (simp add: run_defs limited_def hourly_one_def del: ledger_simps)



lemma second_pending: "get_pending sample_world ! Suc 0 = mk_recruiter ''2'' ''c@d.org''"
  by (simp add: get_pending_def sample_world_def mk_recruiter_def)

lemma second_disallowed:
  "fst (can_send limited
         ((snd (state_after limited None None False True sample_world (Suc 0)))
            \<lparr>trace := trace (snd (state_after limited None None False True sample_world (Suc 0)))
                       @ [Progress (Suc (Suc 0)) 3 (mk_recruiter ''2'' ''c@d.org'')]\<rparr>))
     = (False, ''Hourly limit reached (1/1)'')"
  by (simp add: state_after_def run_defs limited_def hourly_one_def del: ledger_simps)



text \<open>
  The bulk scenario of the specification: three pending recruiters and an hourly limit
  that the first send reaches. The summary is one sent, two skipped, none failed, with
  two entries in \<open>errors\<close>; after the skip of the second recruiter the trace has grown
  by the progress call alone.
\<close>

theorem bulk_rate_limited:
  "1 < length (get_pending sample_world)
   \<and> fst (send_to_all_pending limited None None False True sample_world)
     = \<lparr>total = 3, sent = 1, failed = 0, skipped = 2,
        errors = [(''c@d.org'', ''Rate limit: Hourly limit reached (1/1)''),
                  (''e@f.net'', ''Rate limit: Hourly limit reached (1/1)'')]\<rparr>
   \<and> fst (state_after limited None None False True sample_world 2)
       = (fst (state_after limited None None False True sample_world 1))
           \<lparr>skipped := 1, errors := [(''c@d.org'', ''Rate limit: Hourly limit reached (1/1)'')]\<rparr>
   \<and> trace (snd (state_after limited None None False True sample_world 2))
       = trace (snd (state_after limited None None False True sample_world 1))
         @ [Progress 2 3 (mk_recruiter ''2'' ''c@d.org'')]"
proof -
  have k: "1 < length (get_pending sample_world)" by (simp add: sample_pending)
  have s1: "fst (state_after limited None None False True sample_world (Suc 0))
       = \<lparr>total = 3, sent = 1, failed = 0, skipped = 0, errors = []\<rparr>"
    by (simp add: state_after_def run_defs limited_def hourly_one_def del: ledger_simps)
  have addr: "recruiter.email (mk_recruiter ''2'' ''c@d.org'') = ''c@d.org''"
    by (simp add: mk_recruiter_def)
  from bulk_skip_on_rate_limit [OF k, of limited None None False True]
  have "fst (state_after limited None None False True sample_world (Suc (Suc 0)))
       = (fst (state_after limited None None False True sample_world (Suc 0)))
           \<lparr>skipped := 1, errors := [(''c@d.org'', ''Rate limit: Hourly limit reached (1/1)'')]\<rparr>
   \<and> trace (snd (state_after limited None None False True sample_world (Suc (Suc 0))))
       = trace (snd (state_after limited None None False True sample_world (Suc 0)))
         @ [Progress (Suc (Suc 0)) 3 (mk_recruiter ''2'' ''c@d.org'')]"
    by (simp add: Let_def split_def sample_pending second_pending second_disallowed addr s1)
  then show ?thesis using k limited_summary by (simp add: numeral_2_eq_2)
qed


end
